theory Spec2Isabelle
  imports Main "HOL-Library.Word"
begin

section \<open>Data model\<close>

text \<open>
  The query-history service of \<^verbatim>\<open>pkg/services/queryhistory/database.go\<close> and the
  dashboard-panel validator.

  Modelled from the spec: the declarations of the entities, the DTO, the search filter,
  the patch command and the sentinel errors (the package's \<^verbatim>\<open>models.go\<close> and
  \<^verbatim>\<open>pkg/models\<close> are not among the sources). Sections 3, 4.1 and 7 of the spec list
  them; the field names are the ones \<^verbatim>\<open>database.go\<close> uses. The star row is the pair
  of the spec's schema. The 64-bit identifiers and the creation time are only compared,
  never computed with, so they are \<open>int\<close>; the pagination fields \<open>Page\<close> and \<open>Limit\<close>
  are multiplied, so they are 64-bit words (Go's \<open>int\<close> on the 64-bit targets), read as
  signed by \<open>sint\<close>.
\<close>

record SignedInUser =
  OrgId :: int
  UserId :: int

record QueryHistory =
  ID :: int
  UID :: string
  OrgID :: int
  DatasourceUID :: string
  CreatedBy :: int
  CreatedAt :: int
  Comment :: string
  Queries :: string

record QueryHistoryStar =
  QueryUID :: string
  UserID :: int

record QueryHistoryDTO =
  dtoUID :: string
  dtoDatasourceUID :: string
  dtoCreatedBy :: int
  dtoCreatedAt :: int
  dtoComment :: string
  dtoQueries :: string
  Starred :: bool

record SearchInQueryHistoryQuery =
  DatasourceUIDs :: "string list"
  SearchString :: string
  OnlyStarred :: bool
  Sort :: string
  Page :: "64 word"
  Limit :: "64 word"

record PatchQueryCommentInQueryHistoryCommand =
  cmdComment :: string

text \<open>
  Go's \<open>error\<close> values: the sentinel errors of the two packages, \<open>errors.New\<close>, and
  what the store gateway can answer (a unique-constraint violation, or any other failure,
  carried as its message).
\<close>

datatype error =
    ErrQueryNotFound
  | ErrQueryAlreadyStarred
  | ErrStarredQueryNotFound
  | ErrorsNew string
  | UniqueConstraintViolation
  | StoreFailure string
  | ErrDashboardOrPanelIdentifierNotSet
  | ErrDashboardNotFound
  | ErrDashboardCorrupt
  | ErrDashboardPanelNotFound

section \<open>The store gateway\<close>

text \<open>
  The SQL text that \<open>searchQueries\<close> concatenates, as the choices it makes: the
  expression of the \<open>starred\<close> column, the join, and the direction of the ordering.
\<close>

datatype starred_expr = BooleanStrTrue | CaseStarIsNull

datatype join_kind = InnerJoin | LeftJoin

datatype order_by = CreatedAtAsc | CreatedAtDesc

record select_sql =
  sel_starred :: starred_expr
  sel_join :: join_kind
  sel_order :: order_by

text \<open>The statements a session can be handed, with their parameters.\<close>

datatype statement =
    DeleteStarStmt int string
  | DeleteQueryStmt int int string
  | GetQueryStmt int int string
  | UpdateQueryStmt int QueryHistory
  | ExistStarStmt int string
  | InsertStarStmt QueryHistoryStar
  | FindStmt select_sql int int string "string list" int int

datatype log_entry = LogError string string int error

text \<open>
  The dialect helpers: the pattern-match operator of \<open>LikeStr()\<close> (applied to the
  column and the pattern), and what the backend does with a negative \<open>OFFSET\<close>
  (it fails the statement, or reads it as zero). Both are parameters.
\<close>

record Dialect =
  LikeOp :: "string \<Rightarrow> string \<Rightarrow> bool"
  NegativeOffsetFails :: bool

text \<open>
  The service \<open>s\<close> with all it reaches: the two tables behind \<open>s.SQLStore\<close>, the
  outcomes the store will give to the statements to come (\<open>faults\<close>: \<open>Some msg\<close> fails
  the statement, \<open>None\<close> or an exhausted list lets it run; \<open>fault_at n\<close> below is the
  outcome of the statement after the next \<open>n\<close>), the statements issued so far, the
  dialect, and what \<open>s.log\<close> has received.
\<close>

record QueryHistoryService =
  query_history :: "QueryHistory list"
  query_history_star :: "QueryHistoryStar list"
  faults :: "string option list"
  issued :: "statement list"
  SQLDialect :: Dialect
  logged :: "log_entry list"

text \<open>
  Modelled from the spec: the store gateway (\<^verbatim>\<open>pkg/services/sqlstore\<close> and the
  sessions it hands out are not among the sources). Section 6 of the spec gives its
  contract: parameterised statements, insert, update and delete by filter returning
  affected-row counts, an existence check, and scoped sessions that commit or roll back.
  A statement that fails changes no table and reports zero affected rows. The update by
  identity is the exception: what it writes is the ORM's rule, given with \<open>UpdateQuery\<close>.
\<close>

definition fault_at :: "nat \<Rightarrow> QueryHistoryService \<Rightarrow> error option" where
  "fault_at n s = (case drop n (faults s) of [] \<Rightarrow> None | f # fs \<Rightarrow> map_option StoreFailure f)"

definition exec_stmt :: "statement \<Rightarrow> QueryHistoryService \<Rightarrow> error option \<times> QueryHistoryService" where
  "exec_stmt q s = (fault_at 0 s, s\<lparr>faults := drop 1 (faults s), issued := issued s @ [q]\<rparr>)"

definition star_matches :: "int \<Rightarrow> string \<Rightarrow> QueryHistoryStar \<Rightarrow> bool" where
  "star_matches user_id query_uid r \<longleftrightarrow> UserID r = user_id \<and> QueryUID r = query_uid"

definition query_matches :: "int \<Rightarrow> int \<Rightarrow> string \<Rightarrow> QueryHistory \<Rightarrow> bool" where
  "query_matches org_id created_by uid r \<longleftrightarrow>
     OrgID r = org_id \<and> CreatedBy r = created_by \<and> UID r = uid"

text \<open>\<^verbatim>\<open>Table("query_history_star").Where("user_id = ? AND query_uid = ?").Delete\<close>\<close>

definition DeleteStar ::
  "int \<Rightarrow> string \<Rightarrow> QueryHistoryService \<Rightarrow> (int \<times> error option) \<times> QueryHistoryService" where
  "DeleteStar user_id query_uid s =
     (case exec_stmt (DeleteStarStmt user_id query_uid) s of
        (Some e, s') \<Rightarrow> ((0, Some e), s')
      | (None, s') \<Rightarrow>
          ((int (length (filter (star_matches user_id query_uid) (query_history_star s'))), None),
           s'\<lparr>query_history_star :=
                filter (\<lambda>r. \<not> star_matches user_id query_uid r) (query_history_star s')\<rparr>))"

text \<open>\<^verbatim>\<open>Where("org_id = ? AND created_by = ? AND uid = ?").Delete(QueryHistory{})\<close>\<close>

definition DeleteQuery ::
  "int \<Rightarrow> int \<Rightarrow> string \<Rightarrow> QueryHistoryService \<Rightarrow> (int \<times> error option) \<times> QueryHistoryService" where
  "DeleteQuery org_id created_by uid s =
     (case exec_stmt (DeleteQueryStmt org_id created_by uid) s of
        (Some e, s') \<Rightarrow> ((0, Some e), s')
      | (None, s') \<Rightarrow>
          ((int (length (filter (query_matches org_id created_by uid) (query_history s'))), None),
           s'\<lparr>query_history :=
                filter (\<lambda>r. \<not> query_matches org_id created_by uid r) (query_history s')\<rparr>))"

text \<open>
  \<^verbatim>\<open>Where("org_id = ? AND created_by = ? AND uid = ?").Get(&queryHistory)\<close>: the first
  matching row, if there is one.
\<close>

definition GetQuery ::
  "int \<Rightarrow> int \<Rightarrow> string \<Rightarrow> QueryHistoryService \<Rightarrow> (QueryHistory option \<times> error option) \<times> QueryHistoryService" where
  "GetQuery org_id created_by uid s =
     (case exec_stmt (GetQueryStmt org_id created_by uid) s of
        (Some e, s') \<Rightarrow> ((None, Some e), s')
      | (None, s') \<Rightarrow> ((find (query_matches org_id created_by uid) (query_history s'), None), s'))"

text \<open>
  \<^verbatim>\<open>ID(id).Update(bean)\<close> with a struct as the bean. This is the one statement
  whose meaning the spec's summary does not settle, so it follows the ORM's rule for a
  struct bean: only the bean's non-zero fields are written (a string that is not empty,
  an integer that is not 0), the identity column is the filter and is never written, and
  a bean with no field to write is refused before any statement is issued.
\<close>

definition no_columns :: "QueryHistory \<Rightarrow> bool" where
  "no_columns bean \<longleftrightarrow>
     UID bean = [] \<and> OrgID bean = 0 \<and> DatasourceUID bean = [] \<and> CreatedBy bean = 0
     \<and> CreatedAt bean = 0 \<and> Comment bean = [] \<and> Queries bean = []"

definition write_columns :: "QueryHistory \<Rightarrow> QueryHistory \<Rightarrow> QueryHistory" where
  "write_columns bean r =
     r\<lparr>UID := (if UID bean = [] then UID r else UID bean),
       OrgID := (if OrgID bean = 0 then OrgID r else OrgID bean),
       DatasourceUID := (if DatasourceUID bean = [] then DatasourceUID r else DatasourceUID bean),
       CreatedBy := (if CreatedBy bean = 0 then CreatedBy r else CreatedBy bean),
       CreatedAt := (if CreatedAt bean = 0 then CreatedAt r else CreatedAt bean),
       Comment := (if Comment bean = [] then Comment r else Comment bean),
       Queries := (if Queries bean = [] then Queries r else Queries bean)\<rparr>"

definition UpdateQuery ::
  "int \<Rightarrow> QueryHistory \<Rightarrow> QueryHistoryService \<Rightarrow> (int \<times> error option) \<times> QueryHistoryService" where
  "UpdateQuery rid bean s =
     (if no_columns bean then ((0, Some (ErrorsNew ''No content found to be updated'')), s)
      else
        case exec_stmt (UpdateQueryStmt rid bean) s of
          (Some e, s') \<Rightarrow> ((0, Some e), s')
        | (None, s') \<Rightarrow>
            ((int (length (filter (\<lambda>r. ID r = rid) (query_history s'))), None),
             s'\<lparr>query_history :=
                  map (\<lambda>r. if ID r = rid then write_columns bean r else r) (query_history s')\<rparr>))"

text \<open>\<^verbatim>\<open>Table("query_history_star").Where("user_id = ? AND query_uid = ?").Exist()\<close>\<close>

definition ExistStar ::
  "int \<Rightarrow> string \<Rightarrow> QueryHistoryService \<Rightarrow> (bool \<times> error option) \<times> QueryHistoryService" where
  "ExistStar user_id query_uid s =
     (case exec_stmt (ExistStarStmt user_id query_uid) s of
        (Some e, s') \<Rightarrow> ((False, Some e), s')
      | (None, s') \<Rightarrow> ((list_ex (star_matches user_id query_uid) (query_history_star s'), None), s'))"

text \<open>
  \<^verbatim>\<open>Insert(&queryHistoryStar)\<close>: the table is unique on \<open>(user_id, query_uid)\<close>, so an
  insert of a pair that is there already fails with a unique-constraint violation.
\<close>

definition InsertStar ::
  "QueryHistoryStar \<Rightarrow> QueryHistoryService \<Rightarrow> (int \<times> error option) \<times> QueryHistoryService" where
  "InsertStar row s =
     (case exec_stmt (InsertStarStmt row) s of
        (Some e, s') \<Rightarrow> ((0, Some e), s')
      | (None, s') \<Rightarrow>
          if list_ex (star_matches (UserID row) (QueryUID row)) (query_history_star s')
          then ((0, Some UniqueConstraintViolation), s')
          else ((1, None), s'\<lparr>query_history_star := query_history_star s' @ [row]\<rparr>))"

definition IsUniqueConstraintViolation :: "error \<Rightarrow> bool" where
  "IsUniqueConstraintViolation e \<longleftrightarrow> e = UniqueConstraintViolation"

text \<open>
  The join of \<open>query_history\<close> with \<open>query_history_star\<close> on
  \<open>query_history_star.query_uid = query_history.uid\<close>: one joined row for each pair that
  matches, and for a left join one row with no star for a query that no star matches.
\<close>

definition join_rows ::
  "join_kind \<Rightarrow> QueryHistory list \<Rightarrow> QueryHistoryStar list \<Rightarrow> (QueryHistory \<times> QueryHistoryStar option) list" where
  "join_rows k qs stars =
     concat (map (\<lambda>q.
       let ms = filter (\<lambda>st. QueryUID st = UID q) stars in
       if ms = [] then (case k of LeftJoin \<Rightarrow> [(q, None)] | InnerJoin \<Rightarrow> [])
       else map (\<lambda>st. (q, Some st)) ms) qs)"

text \<open>
  \<open>WHERE org_id = ? AND created_by = ? AND queries LIKE ? AND datasource_uid IN (?, ...)\<close>
\<close>

definition where_clause ::
  "(string \<Rightarrow> string \<Rightarrow> bool) \<Rightarrow> int \<Rightarrow> int \<Rightarrow> string \<Rightarrow> string list \<Rightarrow> QueryHistory \<Rightarrow> bool" where
  "where_clause like org_id created_by pattern ds q \<longleftrightarrow>
     OrgID q = org_id \<and> CreatedBy q = created_by \<and> like (Queries q) pattern
     \<and> DatasourceUID q \<in> set ds"

text \<open>\<open>ORDER BY created_at ASC\<close> or \<open>DESC\<close>; rows of equal time keep their order.\<close>

definition order_rows ::
  "order_by \<Rightarrow> (QueryHistory \<times> QueryHistoryStar option) list \<Rightarrow> (QueryHistory \<times> QueryHistoryStar option) list" where
  "order_rows ob rows =
     (case ob of
        CreatedAtAsc \<Rightarrow> sort_key (\<lambda>r. CreatedAt (fst r)) rows
      | CreatedAtDesc \<Rightarrow> sort_key (\<lambda>r. - CreatedAt (fst r)) rows)"

text \<open>
  The selected columns. \<open>BooleanStr(true)\<close> is the true literal; the \<open>CASE\<close> expression
  is false where the joined star's \<open>query_uid\<close> is null, that is where no star was joined.
\<close>

definition project :: "starred_expr \<Rightarrow> QueryHistory \<times> QueryHistoryStar option \<Rightarrow> QueryHistoryDTO" where
  "project e r =
     \<lparr>dtoUID = UID (fst r), dtoDatasourceUID = DatasourceUID (fst r),
      dtoCreatedBy = CreatedBy (fst r), dtoCreatedAt = CreatedAt (fst r),
      dtoComment = Comment (fst r), dtoQueries = Queries (fst r),
      Starred = (case e of BooleanStrTrue \<Rightarrow> True | CaseStarIsNull \<Rightarrow> snd r \<noteq> None)\<rparr>"

text \<open>The statement without its \<open>LIMIT\<close> and \<open>OFFSET\<close>: join, filter, order, select.\<close>

definition select_rows ::
  "(string \<Rightarrow> string \<Rightarrow> bool) \<Rightarrow> select_sql \<Rightarrow> int \<Rightarrow> int \<Rightarrow> string \<Rightarrow> string list
     \<Rightarrow> QueryHistory list \<Rightarrow> QueryHistoryStar list \<Rightarrow> QueryHistoryDTO list" where
  "select_rows like sql org_id created_by pattern ds qs stars =
     map (project (sel_starred sql))
       (order_rows (sel_order sql)
         (filter (\<lambda>r. where_clause like org_id created_by pattern ds (fst r))
           (join_rows (sel_join sql) qs stars)))"

text \<open>
  \<^verbatim>\<open>session.SQL(sql, params...).Find(&queries)\<close>, with \<open>LIMIT ? OFFSET ?\<close> applied last.
\<close>

definition Find ::
  "select_sql \<Rightarrow> int \<Rightarrow> int \<Rightarrow> string \<Rightarrow> string list \<Rightarrow> int \<Rightarrow> int \<Rightarrow> QueryHistoryService
     \<Rightarrow> (QueryHistoryDTO list \<times> error option) \<times> QueryHistoryService" where
  "Find sql org_id created_by pattern ds lim off s =
     (case exec_stmt (FindStmt sql org_id created_by pattern ds lim off) s of
        (Some e, s') \<Rightarrow> (([], Some e), s')
      | (None, s') \<Rightarrow>
          if off < 0 \<and> NegativeOffsetFails (SQLDialect s')
          then (([], Some (StoreFailure ''OFFSET must not be negative'')), s')
          else ((take (nat lim) (drop (nat off)
                  (select_rows (LikeOp (SQLDialect s')) sql org_id created_by pattern ds
                     (query_history s') (query_history_star s'))), None), s'))"

text \<open>
  \<open>WithDbSession\<close> runs the callback on a session; \<open>WithTransactionalDbSession\<close> commits
  what the callback did when it returns no error and rolls the tables back when it
  returns one. Opening the transaction and the commit itself are taken to succeed.
\<close>

definition WithDbSession ::
  "QueryHistoryService \<Rightarrow> (QueryHistoryService \<Rightarrow> (error + 'a) \<times> QueryHistoryService)
     \<Rightarrow> (error + 'a) \<times> QueryHistoryService" where
  "WithDbSession s callback = callback s"

definition WithTransactionalDbSession ::
  "QueryHistoryService \<Rightarrow> (QueryHistoryService \<Rightarrow> (error + 'a) \<times> QueryHistoryService)
     \<Rightarrow> (error + 'a) \<times> QueryHistoryService" where
  "WithTransactionalDbSession s callback =
     (case callback s of
        (Inl e, s') \<Rightarrow>
          (Inl e, s'\<lparr>query_history := query_history s, query_history_star := query_history_star s\<rparr>)
      | (Inr v, s') \<Rightarrow> (Inr v, s'))"

section \<open>The query-history repository\<close>

text \<open>The DTO literal that every operation builds from the row it read.\<close>

definition toDTO :: "QueryHistory \<Rightarrow> bool \<Rightarrow> QueryHistoryDTO" where
  "toDTO queryHistory isStarred =
     \<lparr>dtoUID = UID queryHistory, dtoDatasourceUID = DatasourceUID queryHistory,
      dtoCreatedBy = CreatedBy queryHistory, dtoCreatedAt = CreatedAt queryHistory,
      dtoComment = Comment queryHistory, dtoQueries = Queries queryHistory,
      Starred = isStarred\<rparr>"

text \<open>
  \<open>searchQueries\<close>, in the three parts of its body. First the defaults it writes into
  its copy of the query: page 1, limit 100, sort \<open>time-desc\<close>.
\<close>

definition searchDefaults :: "SearchInQueryHistoryQuery \<Rightarrow> SearchInQueryHistoryQuery" where
  "searchDefaults query0 =
     (let query1 = (if sint (Page query0) \<le> 0 then query0\<lparr>Page := 1\<rparr> else query0);
          query2 = (if sint (Limit query1) \<le> 0 then query1\<lparr>Limit := 100\<rparr> else query1)
      in if Sort query2 = [] then query2\<lparr>Sort := ''time-desc''\<rparr> else query2)"

text \<open>
  The statement the callback builds: the \<open>starred\<close> column and the join by
  \<open>OnlyStarred\<close>, the ordering by \<open>Sort\<close>.
\<close>

definition searchSQL :: "SearchInQueryHistoryQuery \<Rightarrow> select_sql" where
  "searchSQL query =
     \<lparr>sel_starred = (if OnlyStarred query then BooleanStrTrue else CaseStarIsNull),
      sel_join = (if OnlyStarred query then InnerJoin else LeftJoin),
      sel_order = (if Sort query = ''time-asc'' then CreatedAtAsc else CreatedAtDesc)\<rparr>"

text \<open>
  The callback: the statement, its parameters (\<open>offset\<close> is the product of two machine
  integers, so it wraps), and the \<open>Find\<close>.
\<close>

definition searchSession ::
  "SignedInUser \<Rightarrow> SearchInQueryHistoryQuery \<Rightarrow> QueryHistoryService
     \<Rightarrow> (error + QueryHistoryDTO list) \<times> QueryHistoryService" where
  "searchSession user query session =
     (let sql = searchSQL query;
          offset = Limit query * (Page query - 1)
      in case Find sql (OrgId user) (UserId user) (''%'' @ SearchString query @ ''%'')
                (DatasourceUIDs query) (sint (Limit query)) (sint offset) session of
           ((queries, err), session1) \<Rightarrow>
             (case err of Some e \<Rightarrow> (Inl e, session1) | None \<Rightarrow> (Inr queries, session1)))"

definition searchQueries ::
  "QueryHistoryService \<Rightarrow> SignedInUser \<Rightarrow> SearchInQueryHistoryQuery
     \<Rightarrow> (error + QueryHistoryDTO list) \<times> QueryHistoryService" where
  "searchQueries s user query0 =
     (if length (DatasourceUIDs query0) = 0
      then (Inl (ErrorsNew ''no selected data source for query history search''), s)
      else WithDbSession s (searchSession user (searchDefaults query0)))"

text \<open>
  \<open>deleteQuery\<close>: the star is removed first and a failure there is only logged; the
  delete of the query row decides the result.
\<close>

definition deleteQuery ::
  "QueryHistoryService \<Rightarrow> SignedInUser \<Rightarrow> string \<Rightarrow> (error + int) \<times> QueryHistoryService" where
  "deleteQuery s user uid =
     WithTransactionalDbSession s (\<lambda>session.
       case DeleteStar (UserId user) uid session of
         ((n, err), session1) \<Rightarrow>
           let session2 =
                 (case err of
                    Some e \<Rightarrow>
                      session1\<lparr>logged := logged session1 @
                        [LogError ''Failed to unstar query while deleting it from query history''
                           uid (UserId user) e]\<rparr>
                  | None \<Rightarrow> session1)
           in case DeleteQuery (OrgId user) (UserId user) uid session2 of
                ((rid, err), session3) \<Rightarrow>
                  (case err of
                     Some e \<Rightarrow> (Inl e, session3)
                   | None \<Rightarrow>
                       if rid = 0 then (Inl ErrQueryNotFound, session3)
                       else (Inr rid, session3)))"

definition patchQueryComment ::
  "QueryHistoryService \<Rightarrow> SignedInUser \<Rightarrow> string \<Rightarrow> PatchQueryCommentInQueryHistoryCommand
     \<Rightarrow> (error + QueryHistoryDTO) \<times> QueryHistoryService" where
  "patchQueryComment s user uid cmd =
     (case WithTransactionalDbSession s (\<lambda>session.
             case GetQuery (OrgId user) (UserId user) uid session of
               ((found, err), session1) \<Rightarrow>
                 (case err of
                    Some e \<Rightarrow> (Inl e, session1)
                  | None \<Rightarrow>
                      (case found of
                         None \<Rightarrow> (Inl ErrQueryNotFound, session1)
                       | Some row \<Rightarrow>
                           let queryHistory = row\<lparr>Comment := cmdComment cmd\<rparr> in
                           (case UpdateQuery (ID queryHistory) queryHistory session1 of
                              ((n, err), session2) \<Rightarrow>
                                (case err of
                                   Some e \<Rightarrow> (Inl e, session2)
                                 | None \<Rightarrow>
                                     (case ExistStar (UserId user) uid session2 of
                                        ((starred, err), session3) \<Rightarrow>
                                          (case err of
                                             Some e \<Rightarrow> (Inl e, session3)
                                           | None \<Rightarrow> (Inr (queryHistory, starred), session3)))))))) of
        (Inl e, s') \<Rightarrow> (Inl e, s')
      | (Inr (queryHistory, isStarred), s') \<Rightarrow> (Inr (toDTO queryHistory isStarred), s'))"

definition starQuery ::
  "QueryHistoryService \<Rightarrow> SignedInUser \<Rightarrow> string \<Rightarrow> (error + QueryHistoryDTO) \<times> QueryHistoryService" where
  "starQuery s user uid =
     (case WithTransactionalDbSession s (\<lambda>session.
             case GetQuery (OrgId user) (UserId user) uid session of
               ((found, err), session1) \<Rightarrow>
                 (case err of
                    Some e \<Rightarrow> (Inl e, session1)
                  | None \<Rightarrow>
                      (case found of
                         None \<Rightarrow> (Inl ErrQueryNotFound, session1)
                       | Some queryHistory \<Rightarrow>
                           let queryHistoryStar = \<lparr>QueryUID = uid, UserID = UserId user\<rparr> in
                           (case InsertStar queryHistoryStar session1 of
                              ((n, err), session2) \<Rightarrow>
                                (case err of
                                   Some e \<Rightarrow>
                                     if IsUniqueConstraintViolation e
                                     then (Inl ErrQueryAlreadyStarred, session2)
                                     else (Inl e, session2)
                                 | None \<Rightarrow> (Inr (queryHistory, True), session2)))))) of
        (Inl e, s') \<Rightarrow> (Inl e, s')
      | (Inr (queryHistory, isStarred), s') \<Rightarrow> (Inr (toDTO queryHistory isStarred), s'))"

text \<open>
  \<open>unstarQuery\<close>: after the delete of the star row the count is looked at before the
  error.
\<close>

definition unstarQuery ::
  "QueryHistoryService \<Rightarrow> SignedInUser \<Rightarrow> string \<Rightarrow> (error + QueryHistoryDTO) \<times> QueryHistoryService" where
  "unstarQuery s user uid =
     (case WithTransactionalDbSession s (\<lambda>session.
             case GetQuery (OrgId user) (UserId user) uid session of
               ((found, err), session1) \<Rightarrow>
                 (case err of
                    Some e \<Rightarrow> (Inl e, session1)
                  | None \<Rightarrow>
                      (case found of
                         None \<Rightarrow> (Inl ErrQueryNotFound, session1)
                       | Some queryHistory \<Rightarrow>
                           (case DeleteStar (UserId user) uid session1 of
                              ((rid, err), session2) \<Rightarrow>
                                if rid = 0 then (Inl ErrStarredQueryNotFound, session2)
                                else (case err of
                                        Some e \<Rightarrow> (Inl e, session2)
                                      | None \<Rightarrow> (Inr (queryHistory, False), session2)))))) of
        (Inl e, s') \<Rightarrow> (Inl e, s')
      | (Inr (queryHistory, isStarred), s') \<Rightarrow> (Inr (toDTO queryHistory isStarred), s'))"

section \<open>The dashboard-panel validator\<close>

text \<open>
  The dashboard document as the validator reads it: a \<open>panels\<close> collection of objects,
  each with an integer \<open>id\<close>. The dashboard store answers a fetch by organisation and uid
  with an error or a dashboard; \<open>fetched\<close> records the fetches made.
\<close>

record Panel =
  panelId :: int

record Document =
  panels :: "Panel list"

record Dashboard =
  dashUid :: string
  dashOrgId :: int
  Data :: "Document option"

record DashboardStore =
  GetDashboard :: "int \<Rightarrow> string \<Rightarrow> error + Dashboard"
  fetched :: "(int \<times> string) list"

text \<open>
  Modelled from the spec: \<open>checkDashboardAndPanel\<close> (the sources hold its test only, not
  the function). Section 4.2 gives its policy, in order: identifiers set, dashboard
  fetched, document present, panel id among the document's panels.
\<close>

definition checkDashboardAndPanel ::
  "DashboardStore \<Rightarrow> int \<Rightarrow> string \<Rightarrow> int \<Rightarrow> error option \<times> DashboardStore" where
  "checkDashboardAndPanel ss orgID dashboardUID panelID =
     (if dashboardUID = [] \<or> panelID \<le> 0 then (Some ErrDashboardOrPanelIdentifierNotSet, ss)
      else
        let ss' = ss\<lparr>fetched := fetched ss @ [(orgID, dashboardUID)]\<rparr> in
        case GetDashboard ss orgID dashboardUID of
          Inl e \<Rightarrow> (Some e, ss')
        | Inr dashboard \<Rightarrow>
            (case Data dashboard of
               None \<Rightarrow> (Some ErrDashboardCorrupt, ss')
             | Some doc \<Rightarrow>
                 if list_ex (\<lambda>p. panelId p = panelID) (panels doc) then (None, ss')
                 else (Some ErrDashboardPanelNotFound, ss')))"

section \<open>Example data\<close>

text \<open>
  A caller in organisation 1, two of the caller's queries on data source \<open>ds1\<close>, the
  caller's star on the first, and a store that fails nothing. The dashboard is the one
  of the validator's test: a single panel, with id 2.
\<close>

definition user1 :: SignedInUser where
  "user1 = \<lparr>OrgId = 1, UserId = 7\<rparr>"

definition query_a :: QueryHistory where
  "query_a = \<lparr>ID = 1, UID = ''qa'', OrgID = 1, DatasourceUID = ''ds1'', CreatedBy = 7,
              CreatedAt = 100, Comment = [], Queries = ''A''\<rparr>"

definition query_b :: QueryHistory where
  "query_b = \<lparr>ID = 2, UID = ''qb'', OrgID = 1, DatasourceUID = ''ds1'', CreatedBy = 7,
              CreatedAt = 200, Comment = ''old'', Queries = ''B''\<rparr>"

definition star_a :: QueryHistoryStar where
  "star_a = \<lparr>QueryUID = ''qa'', UserID = 7\<rparr>"

definition any_dialect :: Dialect where
  "any_dialect = \<lparr>LikeOp = (\<lambda>column pattern. True), NegativeOffsetFails = True\<rparr>"

definition service1 :: QueryHistoryService where
  "service1 = \<lparr>query_history = [query_a, query_b], query_history_star = [star_a],
               faults = [], issued = [], SQLDialect = any_dialect, logged = []\<rparr>"

text \<open>The same service with a store that fails the next statement, or the one after it.\<close>

definition service_locked :: QueryHistoryService where
  "service_locked = service1\<lparr>faults := [Some ''database is locked'']\<rparr>"

definition service_delete_fails :: QueryHistoryService where
  "service_delete_fails = service1\<lparr>faults := [None, Some ''database is locked'']\<rparr>"

text \<open>The same service where the only star on the first query is another user's.\<close>

definition service_other_star :: QueryHistoryService where
  "service_other_star = service1\<lparr>query_history_star := [\<lparr>QueryUID = ''qa'', UserID = 9\<rparr>]\<rparr>"

definition search1 :: SearchInQueryHistoryQuery where
  "search1 = \<lparr>DatasourceUIDs = [''ds1''], SearchString = [], OnlyStarred = False, Sort = [],
              Page = 0, Limit = 0\<rparr>"

definition dashboard1 :: Dashboard where
  "dashboard1 = \<lparr>dashUid = ''1'', dashOrgId = 1, Data = Some \<lparr>panels = [\<lparr>panelId = 2\<rparr>]\<rparr>\<rparr>"

definition dashboards1 :: DashboardStore where
  "dashboards1 = \<lparr>GetDashboard = (\<lambda>orgID uid. Inr dashboard1), fetched = []\<rparr>"

definition dashboards_none :: DashboardStore where
  "dashboards_none = \<lparr>GetDashboard = (\<lambda>orgID uid. Inl ErrDashboardNotFound), fetched = []\<rparr>"

definition dashboards_nil :: DashboardStore where
  "dashboards_nil = \<lparr>GetDashboard = (\<lambda>orgID uid. Inr (dashboard1\<lparr>Data := None\<rparr>)), fetched = []\<rparr>"

section \<open>The store gateway, statement by statement\<close>

lemmas example_defs =
  user1_def query_a_def query_b_def star_a_def any_dialect_def service1_def search1_def

lemmas search_defs =
  searchQueries_def WithDbSession_def searchSession_def searchDefaults_def searchSQL_def Find_def
  exec_stmt_def fault_at_def Let_def select_rows_def join_rows_def order_rows_def
  where_clause_def project_def toDTO_def

lemma fault_at_faults [simp]:
  "fault_at n (s\<lparr>faults := drop k (faults s)\<rparr>) = fault_at (n + k) s"
  by (simp add: fault_at_def add.commute)

lemma fault_at_other [simp]:
  "fault_at n (s\<lparr>issued := i\<rparr>) = fault_at n s"
  "fault_at n (s\<lparr>query_history := qs\<rparr>) = fault_at n s"
  "fault_at n (s\<lparr>query_history_star := st\<rparr>) = fault_at n s"
  "fault_at n (s\<lparr>logged := l\<rparr>) = fault_at n s"
  by (simp_all add: fault_at_def)

lemma fault_at_StoreFailure: "fault_at n s = Some e \<Longrightarrow> \<exists>m. e = StoreFailure m"
  by (auto simp: fault_at_def split: list.splits)

lemma fault_at_no_faults: "faults s = [] \<Longrightarrow> fault_at n s = None"
  by (simp add: fault_at_def)

lemma DeleteStar_ok:
  "fault_at 0 s = None \<Longrightarrow>
   DeleteStar u q s =
     ((int (length (filter (star_matches u q) (query_history_star s))), None),
      s\<lparr>faults := drop 1 (faults s), issued := issued s @ [DeleteStarStmt u q],
        query_history_star := filter (\<lambda>r. \<not> star_matches u q r) (query_history_star s)\<rparr>)"
  by (simp add: DeleteStar_def exec_stmt_def)

lemma DeleteStar_fault:
  "fault_at 0 s = Some e \<Longrightarrow>
   DeleteStar u q s =
     ((0, Some e), s\<lparr>faults := drop 1 (faults s), issued := issued s @ [DeleteStarStmt u q]\<rparr>)"
  by (simp add: DeleteStar_def exec_stmt_def)

lemma DeleteQuery_ok:
  "fault_at 0 s = None \<Longrightarrow>
   DeleteQuery org u q s =
     ((int (length (filter (query_matches org u q) (query_history s))), None),
      s\<lparr>faults := drop 1 (faults s), issued := issued s @ [DeleteQueryStmt org u q],
        query_history := filter (\<lambda>r. \<not> query_matches org u q r) (query_history s)\<rparr>)"
  by (simp add: DeleteQuery_def exec_stmt_def)

lemma DeleteQuery_fault:
  "fault_at 0 s = Some e \<Longrightarrow>
   DeleteQuery org u q s =
     ((0, Some e), s\<lparr>faults := drop 1 (faults s), issued := issued s @ [DeleteQueryStmt org u q]\<rparr>)"
  by (simp add: DeleteQuery_def exec_stmt_def)

lemma GetQuery_ok:
  "fault_at 0 s = None \<Longrightarrow>
   GetQuery org u q s =
     ((find (query_matches org u q) (query_history s), None),
      s\<lparr>faults := drop 1 (faults s), issued := issued s @ [GetQueryStmt org u q]\<rparr>)"
  by (simp add: GetQuery_def exec_stmt_def)

lemma UpdateQuery_ok:
  "fault_at 0 s = None \<Longrightarrow> \<not> no_columns bean \<Longrightarrow>
   UpdateQuery rid bean s =
     ((int (length (filter (\<lambda>r. ID r = rid) (query_history s))), None),
      s\<lparr>faults := drop 1 (faults s), issued := issued s @ [UpdateQueryStmt rid bean],
        query_history := map (\<lambda>r. if ID r = rid then write_columns bean r else r) (query_history s)\<rparr>)"
  by (simp add: UpdateQuery_def exec_stmt_def)

lemma ExistStar_ok:
  "fault_at 0 s = None \<Longrightarrow>
   ExistStar u q s =
     ((list_ex (star_matches u q) (query_history_star s), None),
      s\<lparr>faults := drop 1 (faults s), issued := issued s @ [ExistStarStmt u q]\<rparr>)"
  by (simp add: ExistStar_def exec_stmt_def)

lemma InsertStar_ok:
  "fault_at 0 s = None \<Longrightarrow>
   InsertStar row s =
     (if list_ex (star_matches (UserID row) (QueryUID row)) (query_history_star s)
      then ((0, Some UniqueConstraintViolation),
            s\<lparr>faults := drop 1 (faults s), issued := issued s @ [InsertStarStmt row]\<rparr>)
      else ((1, None),
            s\<lparr>faults := drop 1 (faults s), issued := issued s @ [InsertStarStmt row],
              query_history_star := query_history_star s @ [row]\<rparr>))"
  by (simp add: InsertStar_def exec_stmt_def)

lemma Find_ok:
  "fault_at 0 s = None \<Longrightarrow>
   Find sql org u pattern ds lim off s =
     (if off < 0 \<and> NegativeOffsetFails (SQLDialect s)
      then (([], Some (StoreFailure ''OFFSET must not be negative'')),
            s\<lparr>faults := drop 1 (faults s), issued := issued s @ [FindStmt sql org u pattern ds lim off]\<rparr>)
      else ((take (nat lim) (drop (nat off)
               (select_rows (LikeOp (SQLDialect s)) sql org u pattern ds
                  (query_history s) (query_history_star s))), None),
            s\<lparr>faults := drop 1 (faults s), issued := issued s @ [FindStmt sql org u pattern ds lim off]\<rparr>))"
  by (simp add: Find_def exec_stmt_def)

lemma Find_fault:
  "fault_at 0 s = Some e \<Longrightarrow>
   Find sql org u pattern ds lim off s =
     (([], Some e), s\<lparr>faults := drop 1 (faults s), issued := issued s @ [FindStmt sql org u pattern ds lim off]\<rparr>)"
  by (simp add: Find_def exec_stmt_def)

section \<open>searchQueries: the guard on the data sources\<close>

lemma searchSession_error:
  "fst (searchSession user query s) = Inl e \<Longrightarrow> \<exists>m. e = StoreFailure m"
  by (cases "fault_at 0 s")
     (auto simp: searchSession_def Let_def Find_ok Find_fault split: if_splits dest: fault_at_StoreFailure)

lemma searchSession_issued:
  "length (issued (snd (searchSession user query s))) = Suc (length (issued s))"
  by (cases "fault_at 0 s")
     (auto simp: searchSession_def Let_def Find_ok Find_fault split: if_splits)

text \<open>
  C4. With no data-source uid in the filter \<open>searchQueries\<close> fails with the error made for
  that case and gives the service back as it was: no statement issued, no pending store
  outcome consumed. With at least one uid the result is never that error, and exactly one
  statement is issued.
\<close>

theorem searchQueries_requires_datasource:
  "(DatasourceUIDs query = [] \<longrightarrow>
      searchQueries s user query
        = (Inl (ErrorsNew ''no selected data source for query history search''), s))
   \<and> (DatasourceUIDs query \<noteq> [] \<longrightarrow>
      fst (searchQueries s user query)
        \<noteq> Inl (ErrorsNew ''no selected data source for query history search'')
      \<and> length (issued (snd (searchQueries s user query))) = Suc (length (issued s)))"
proof (intro conjI impI)
  assume "DatasourceUIDs query = []"
  then show "searchQueries s user query
        = (Inl (ErrorsNew ''no selected data source for query history search''), s)"
    by (simp add: searchQueries_def)
next
  assume ne: "DatasourceUIDs query \<noteq> []"
  then have eq: "searchQueries s user query = searchSession user (searchDefaults query) s"
    by (simp add: searchQueries_def WithDbSession_def)
  show "fst (searchQueries s user query)
        \<noteq> Inl (ErrorsNew ''no selected data source for query history search'')"
    using searchSession_error [of user "searchDefaults query" s] unfolding eq by auto
  show "length (issued (snd (searchQueries s user query))) = Suc (length (issued s))"
    unfolding eq by (rule searchSession_issued)
qed

theorem searchQueries_requires_datasource_witness:
  "searchQueries service1 user1 (search1\<lparr>DatasourceUIDs := []\<rparr>)
     = (Inl (ErrorsNew ''no selected data source for query history search''), service1)
   \<and> fst (searchQueries service1 user1 search1) = Inr [toDTO query_b False, toDTO query_a True]
   \<and> length (issued (snd (searchQueries service1 user1 search1))) = 1"
  using searchQueries_requires_datasource [of "search1\<lparr>DatasourceUIDs := []\<rparr>" service1 user1]
        searchQueries_requires_datasource [of search1 service1 user1]
  by (simp add: example_defs search_defs)

section \<open>checkDashboardAndPanel: the order of the checks\<close>

text \<open>
  C3. The validator checks in a fixed order. An empty dashboard uid or a panel id that
  is not positive fails with \<open>ErrDashboardOrPanelIdentifierNotSet\<close> and the store is not
  asked (no fetch is recorded). Otherwise the dashboard is fetched once; an error of the
  store, \<open>ErrDashboardNotFound\<close> among them, is returned as it is; a dashboard with no
  document is \<open>ErrDashboardCorrupt\<close>; a document with no panel of that id is
  \<open>ErrDashboardPanelNotFound\<close>; and otherwise there is no error.
\<close>

theorem checkDashboardAndPanel_order:
  "(dashboardUID = [] \<or> panelID \<le> 0 \<longrightarrow>
      checkDashboardAndPanel ss orgID dashboardUID panelID
        = (Some ErrDashboardOrPanelIdentifierNotSet, ss))
   \<and> (dashboardUID \<noteq> [] \<and> 0 < panelID \<longrightarrow>
      fetched (snd (checkDashboardAndPanel ss orgID dashboardUID panelID))
        = fetched ss @ [(orgID, dashboardUID)]
      \<and> (\<forall>e. GetDashboard ss orgID dashboardUID = Inl e \<longrightarrow>
            fst (checkDashboardAndPanel ss orgID dashboardUID panelID) = Some e)
      \<and> (\<forall>dashboard. GetDashboard ss orgID dashboardUID = Inr dashboard \<longrightarrow>
            (Data dashboard = None \<longrightarrow>
               fst (checkDashboardAndPanel ss orgID dashboardUID panelID) = Some ErrDashboardCorrupt)
          \<and> (\<forall>doc. Data dashboard = Some doc \<longrightarrow>
               fst (checkDashboardAndPanel ss orgID dashboardUID panelID)
                 = (if \<exists>p \<in> set (panels doc). panelId p = panelID then None
                    else Some ErrDashboardPanelNotFound))))"
  by (auto simp: checkDashboardAndPanel_def Let_def list_ex_iff split: sum.splits option.splits)

theorem checkDashboardAndPanel_order_witness:
  "checkDashboardAndPanel dashboards1 1 ''1'' 0
     = (Some ErrDashboardOrPanelIdentifierNotSet, dashboards1)
   \<and> checkDashboardAndPanel dashboards1 1 [] 2
     = (Some ErrDashboardOrPanelIdentifierNotSet, dashboards1)
   \<and> fetched (snd (checkDashboardAndPanel dashboards1 1 ''1'' 2)) = [(1, ''1'')]
   \<and> fst (checkDashboardAndPanel dashboards_none 1 ''1'' 2) = Some ErrDashboardNotFound
   \<and> fst (checkDashboardAndPanel dashboards_nil 1 ''1'' 3) = Some ErrDashboardCorrupt
   \<and> fst (checkDashboardAndPanel dashboards1 1 ''1'' 3) = Some ErrDashboardPanelNotFound
   \<and> fst (checkDashboardAndPanel dashboards1 1 ''1'' 2) = None"
  using checkDashboardAndPanel_order [of "''1''" 0 dashboards1 1]
        checkDashboardAndPanel_order [of "[]" 2 dashboards1 1]
        checkDashboardAndPanel_order [of "''1''" 2 dashboards1 1]
        checkDashboardAndPanel_order [of "''1''" 2 dashboards_none 1]
        checkDashboardAndPanel_order [of "''1''" 3 dashboards_nil 1]
        checkDashboardAndPanel_order [of "''1''" 3 dashboards1 1]
  by (simp add: dashboards1_def dashboards_none_def dashboards_nil_def dashboard1_def)

section \<open>deleteQuery\<close>

text \<open>
  C1 as the specification states it fails where the store fails the delete of the star
  and then lets the delete of the query through: the callback only logs the first
  failure, the transaction commits, and the caller's star on the deleted query is still
  in the table.
\<close>

theorem deleteQuery_counterexample:
  "fst (deleteQuery service_locked user1 ''qa'') = Inr 1
   \<and> query_history (snd (deleteQuery service_locked user1 ''qa'')) = [query_b]
   \<and> query_history_star (snd (deleteQuery service_locked user1 ''qa'')) = [star_a]
   \<and> star_matches (UserId user1) ''qa'' star_a"
  by (simp add: service_locked_def example_defs deleteQuery_def WithTransactionalDbSession_def
        DeleteStar_def DeleteQuery_def exec_stmt_def fault_at_def star_matches_def query_matches_def)

text \<open>
  C1, amended. \<open>deleteQuery\<close> always issues the delete of the caller's star first and the
  delete of the query row second; a failure of the first is logged and does not keep the
  second from running. Whenever the call returns an error both tables are as before
  (the transaction is rolled back), and when the second statement runs and no row matches
  \<open>(OrgID, CreatedBy, UID)\<close> that error is \<open>ErrQueryNotFound\<close>. When it runs and rows
  match, they are deleted and their count is returned; if moreover the delete of the star
  did not fail, no star of the caller on that uid remains.
\<close>

theorem deleteQuery_steps:
  "issued (snd (deleteQuery s user uid))
     = issued s @ [DeleteStarStmt (UserId user) uid, DeleteQueryStmt (OrgId user) (UserId user) uid]
   \<and> logged (snd (deleteQuery s user uid))
     = (case fault_at 0 s of
          None \<Rightarrow> logged s
        | Some e \<Rightarrow> logged s @ [LogError ''Failed to unstar query while deleting it from query history''
                                 uid (UserId user) e])
   \<and> (\<forall>e. fst (deleteQuery s user uid) = Inl e \<longrightarrow>
         query_history (snd (deleteQuery s user uid)) = query_history s
         \<and> query_history_star (snd (deleteQuery s user uid)) = query_history_star s)
   \<and> (fault_at 1 s = None \<and> \<not> list_ex (query_matches (OrgId user) (UserId user) uid) (query_history s) \<longrightarrow>
         fst (deleteQuery s user uid) = Inl ErrQueryNotFound)
   \<and> (fault_at 1 s = None \<and> list_ex (query_matches (OrgId user) (UserId user) uid) (query_history s) \<longrightarrow>
         fst (deleteQuery s user uid)
           = Inr (int (length (filter (query_matches (OrgId user) (UserId user) uid) (query_history s))))
         \<and> query_history (snd (deleteQuery s user uid))
           = filter (\<lambda>r. \<not> query_matches (OrgId user) (UserId user) uid r) (query_history s)
         \<and> (fault_at 0 s = None \<longrightarrow>
              query_history_star (snd (deleteQuery s user uid))
                = filter (\<lambda>r. \<not> star_matches (UserId user) uid r) (query_history_star s)
              \<and> \<not> list_ex (star_matches (UserId user) uid)
                    (query_history_star (snd (deleteQuery s user uid)))))"
proof -
  show ?thesis
  proof (cases "fault_at 0 s")
    case None
    note f0 = None
    show ?thesis
    proof (cases "fault_at 1 s")
      case None
      show ?thesis using f0 None
        by (auto simp: deleteQuery_def WithTransactionalDbSession_def DeleteStar_ok DeleteQuery_ok
              list_ex_iff filter_empty_conv)
    next
      case (Some e)
      show ?thesis using f0 Some
        by (simp add: deleteQuery_def WithTransactionalDbSession_def DeleteStar_ok DeleteQuery_fault)
    qed
  next
    case (Some e0)
    note f0 = Some
    show ?thesis
    proof (cases "fault_at 1 s")
      case None
      show ?thesis using f0 None
        by (auto simp: deleteQuery_def WithTransactionalDbSession_def DeleteStar_fault DeleteQuery_ok
              list_ex_iff filter_empty_conv)
    next
      case (Some e)
      show ?thesis using f0 Some
        by (simp add: deleteQuery_def WithTransactionalDbSession_def DeleteStar_fault DeleteQuery_fault)
    qed
  qed
qed

theorem deleteQuery_steps_witness:
  "issued (snd (deleteQuery service_locked user1 ''qa''))
     = [DeleteStarStmt 7 ''qa'', DeleteQueryStmt 1 7 ''qa'']
   \<and> logged (snd (deleteQuery service_locked user1 ''qa''))
     = [LogError ''Failed to unstar query while deleting it from query history'' ''qa'' 7
          (StoreFailure ''database is locked'')]
   \<and> fst (deleteQuery service1 user1 ''zz'') = Inl ErrQueryNotFound
   \<and> query_history (snd (deleteQuery service1 user1 ''zz'')) = [query_a, query_b]
   \<and> query_history_star (snd (deleteQuery service1 user1 ''zz'')) = [star_a]
   \<and> fst (deleteQuery service1 user1 ''qa'') = Inr 1
   \<and> query_history (snd (deleteQuery service1 user1 ''qa'')) = [query_b]
   \<and> query_history_star (snd (deleteQuery service1 user1 ''qa'')) = []"
  using deleteQuery_steps [of service_locked user1 "''qa''"]
        deleteQuery_steps [of service1 user1 "''zz''"]
        deleteQuery_steps [of service1 user1 "''qa''"]
  by (simp add: service_locked_def example_defs fault_at_def star_matches_def query_matches_def)

section \<open>starQuery and unstarQuery\<close>

lemma find_None_list_ex: "find P xs = None \<longleftrightarrow> \<not> list_ex P xs"
  by (auto simp: find_None_iff list_ex_iff)

lemma find_Some_list_ex: "find P xs = Some x \<Longrightarrow> list_ex P xs \<and> x \<in> set xs \<and> P x"
  by (auto simp: find_Some_iff list_ex_iff)

lemma starQuery_missing:
  assumes "fault_at 0 s = None"
    and "find (query_matches (OrgId user) (UserId user) uid) (query_history s) = None"
  shows "fst (starQuery s user uid) = Inl ErrQueryNotFound"
    and "query_history (snd (starQuery s user uid)) = query_history s"
    and "query_history_star (snd (starQuery s user uid)) = query_history_star s"
  using assms
  by (simp_all add: starQuery_def WithTransactionalDbSession_def GetQuery_ok)

lemma starQuery_found:
  assumes "fault_at 0 s = None" and "fault_at (Suc 0) s = None"
    and "find (query_matches (OrgId user) (UserId user) uid) (query_history s) = Some q"
  shows "fst (starQuery s user uid)
           = (if list_ex (star_matches (UserId user) uid) (query_history_star s)
              then Inl ErrQueryAlreadyStarred else Inr (toDTO q True))"
    and "query_history (snd (starQuery s user uid)) = query_history s"
    and "query_history_star (snd (starQuery s user uid))
           = (if list_ex (star_matches (UserId user) uid) (query_history_star s)
              then query_history_star s
              else query_history_star s @ [\<lparr>QueryUID = uid, UserID = UserId user\<rparr>])"
    and "faults (snd (starQuery s user uid)) = drop 2 (faults s)"
  using assms
  by (simp_all add: starQuery_def WithTransactionalDbSession_def GetQuery_ok InsertStar_ok
        Let_def IsUniqueConstraintViolation_def numeral_2_eq_2)

lemma unstarQuery_found:
  assumes "fault_at 0 s = None" and "fault_at (Suc 0) s = None"
    and "find (query_matches (OrgId user) (UserId user) uid) (query_history s) = Some q"
  shows "fst (unstarQuery s user uid)
           = (if list_ex (star_matches (UserId user) uid) (query_history_star s)
              then Inr (toDTO q False) else Inl ErrStarredQueryNotFound)"
    and "query_history (snd (unstarQuery s user uid)) = query_history s"
    and "query_history_star (snd (unstarQuery s user uid))
           = filter (\<lambda>r. \<not> star_matches (UserId user) uid r) (query_history_star s)"
proof -
  show "fst (unstarQuery s user uid)
           = (if list_ex (star_matches (UserId user) uid) (query_history_star s)
              then Inr (toDTO q False) else Inl ErrStarredQueryNotFound)"
    and "query_history (snd (unstarQuery s user uid)) = query_history s"
    using assms
    by (auto simp: unstarQuery_def WithTransactionalDbSession_def GetQuery_ok DeleteStar_ok
          list_ex_iff filter_empty_conv)
  show "query_history_star (snd (unstarQuery s user uid))
           = filter (\<lambda>r. \<not> star_matches (UserId user) uid r) (query_history_star s)"
  proof (cases "list_ex (star_matches (UserId user) uid) (query_history_star s)")
    case True
    then have "filter (star_matches (UserId user) uid) (query_history_star s) \<noteq> []"
      by (auto simp: list_ex_iff filter_empty_conv)
    with assms show ?thesis
      by (simp add: unstarQuery_def WithTransactionalDbSession_def GetQuery_ok DeleteStar_ok)
  next
    case False
    then have "filter (star_matches (UserId user) uid) (query_history_star s) = []"
      and "filter (\<lambda>r. \<not> star_matches (UserId user) uid r) (query_history_star s)
             = query_history_star s"
      by (auto simp: list_ex_iff filter_empty_conv filter_id_conv)
    with assms show ?thesis
      by (simp add: unstarQuery_def WithTransactionalDbSession_def GetQuery_ok DeleteStar_ok)
  qed
qed

text \<open>
  C2. With a store that fails neither statement: \<open>starQuery\<close> fails with
  \<open>ErrQueryNotFound\<close> when no query row matches \<open>(OrgID, CreatedBy, UID)\<close>; when the row
  is there and the caller's star on it exists already, the insert violates the unique
  constraint and the call fails with \<open>ErrQueryAlreadyStarred\<close>, the tables unchanged;
  and when the insert goes through the call returns the row's DTO with \<open>Starred\<close> true
  and the star row is in the table.
\<close>

theorem starQuery_outcomes:
  assumes "fault_at 0 s = None" and "fault_at 1 s = None"
  shows "(\<not> list_ex (query_matches (OrgId user) (UserId user) uid) (query_history s) \<longrightarrow>
            fst (starQuery s user uid) = Inl ErrQueryNotFound
            \<and> query_history (snd (starQuery s user uid)) = query_history s
            \<and> query_history_star (snd (starQuery s user uid)) = query_history_star s)
       \<and> (\<forall>q. find (query_matches (OrgId user) (UserId user) uid) (query_history s) = Some q \<longrightarrow>
            (list_ex (star_matches (UserId user) uid) (query_history_star s) \<longrightarrow>
               fst (starQuery s user uid) = Inl ErrQueryAlreadyStarred
               \<and> query_history (snd (starQuery s user uid)) = query_history s
               \<and> query_history_star (snd (starQuery s user uid)) = query_history_star s)
          \<and> (\<not> list_ex (star_matches (UserId user) uid) (query_history_star s) \<longrightarrow>
               fst (starQuery s user uid) = Inr (toDTO q True)
               \<and> Starred (toDTO q True)
               \<and> query_history (snd (starQuery s user uid)) = query_history s
               \<and> query_history_star (snd (starQuery s user uid))
                   = query_history_star s @ [\<lparr>QueryUID = uid, UserID = UserId user\<rparr>]))"
proof -
  have f1: "fault_at (Suc 0) s = None"
    using assms(2) by simp
  show ?thesis
    using starQuery_missing [OF assms(1), of user uid] starQuery_found [OF assms(1) f1, of user uid]
    by (simp add: find_None_list_ex toDTO_def)
qed

theorem starQuery_outcomes_witness:
  "fst (starQuery service1 user1 ''zz'') = Inl ErrQueryNotFound
   \<and> fst (starQuery service1 user1 ''qa'') = Inl ErrQueryAlreadyStarred
   \<and> query_history_star (snd (starQuery service1 user1 ''qa'')) = [star_a]
   \<and> fst (starQuery service1 user1 ''qb'') = Inr (toDTO query_b True)
   \<and> query_history_star (snd (starQuery service1 user1 ''qb''))
       = [star_a, \<lparr>QueryUID = ''qb'', UserID = 7\<rparr>]"
  using starQuery_outcomes [where s = service1 and user = user1 and uid = "''zz''"]
        starQuery_outcomes [where s = service1 and user = user1 and uid = "''qa''"]
        starQuery_outcomes [where s = service1 and user = user1 and uid = "''qb''"]
  by (simp add: example_defs fault_at_def query_matches_def star_matches_def)

text \<open>
  C9. In \<open>unstarQuery\<close> the count of the delete is looked at before its error: when the
  query row is found and the store fails the delete of the star (an error, with zero
  affected rows), the call returns \<open>ErrStarredQueryNotFound\<close> and not the store's error,
  whether or not a star row exists.
\<close>

theorem unstarQuery_count_before_error:
  assumes "fault_at 0 s = None"
    and "find (query_matches (OrgId user) (UserId user) uid) (query_history s) = Some q"
    and "fault_at 1 s = Some e"
  shows "fst (DeleteStar (UserId user) uid (snd (GetQuery (OrgId user) (UserId user) uid s)))
           = (0, Some e)
       \<and> fst (unstarQuery s user uid) = Inl ErrStarredQueryNotFound
       \<and> fst (unstarQuery s user uid) \<noteq> Inl e
       \<and> query_history (snd (unstarQuery s user uid)) = query_history s
       \<and> query_history_star (snd (unstarQuery s user uid)) = query_history_star s"
  using assms fault_at_StoreFailure [OF assms(3)]
  by (auto simp: unstarQuery_def WithTransactionalDbSession_def GetQuery_ok DeleteStar_fault)

theorem unstarQuery_count_before_error_witness:
  "list_ex (star_matches (UserId user1) ''qa'') (query_history_star service_delete_fails)
   \<and> fst (unstarQuery service_delete_fails user1 ''qa'') = Inl ErrStarredQueryNotFound
   \<and> query_history_star (snd (unstarQuery service_delete_fails user1 ''qa'')) = [star_a]"
  using unstarQuery_count_before_error
          [where s = service_delete_fails and user = user1 and uid = "''qa''" and q = query_a
             and e = "StoreFailure ''database is locked''"]
  by (simp add: service_delete_fails_def example_defs fault_at_def query_matches_def star_matches_def)

text \<open>
  C7. For a query row the caller can see and a store that fails nothing: after
  \<open>starQuery\<close>, \<open>unstarQuery\<close> for the same user and uid succeeds, its DTO has
  \<open>Starred\<close> false, and no star row of the caller on that uid is left. If the query had
  no star of the caller to begin with, the \<open>starQuery\<close> itself succeeds, the star table
  ends as it began, and an \<open>unstarQuery\<close> without the \<open>starQuery\<close> fails with
  \<open>ErrStarredQueryNotFound\<close>.
\<close>

theorem star_then_unstar:
  assumes "faults s = []"
    and "find (query_matches (OrgId user) (UserId user) uid) (query_history s) = Some q"
  shows "fst (unstarQuery (snd (starQuery s user uid)) user uid) = Inr (toDTO q False)
       \<and> \<not> Starred (toDTO q False)
       \<and> \<not> list_ex (star_matches (UserId user) uid)
             (query_history_star (snd (unstarQuery (snd (starQuery s user uid)) user uid)))
       \<and> query_history (snd (unstarQuery (snd (starQuery s user uid)) user uid)) = query_history s
       \<and> (\<not> list_ex (star_matches (UserId user) uid) (query_history_star s) \<longrightarrow>
            fst (starQuery s user uid) = Inr (toDTO q True)
            \<and> query_history_star (snd (unstarQuery (snd (starQuery s user uid)) user uid))
                = query_history_star s
            \<and> fst (unstarQuery s user uid) = Inl ErrStarredQueryNotFound
            \<and> query_history_star (snd (unstarQuery s user uid)) = query_history_star s)"
proof -
  let ?P = "star_matches (UserId user) uid"
  let ?s1 = "snd (starQuery s user uid)"
  have f: "fault_at n s = None" for n
    using assms(1) by (rule fault_at_no_faults)
  note star = starQuery_found [OF f f assms(2)]
  have "faults ?s1 = []"
    using star(4) assms(1) by simp
  then have f1: "fault_at n ?s1 = None" for n
    by (rule fault_at_no_faults)
  have q1: "find (query_matches (OrgId user) (UserId user) uid) (query_history ?s1) = Some q"
    using star(2) assms(2) by simp
  note unstar1 = unstarQuery_found [OF f1 f1 q1]
  note unstar0 = unstarQuery_found [OF f f assms(2)]
  have starred1: "list_ex ?P (query_history_star ?s1)"
    unfolding star(3) by (simp add: star_matches_def)
  have gone: "\<not> list_ex ?P (filter (\<lambda>r. \<not> ?P r) xs)" for xs
    by (simp add: list_ex_iff)
  have c1: "fst (unstarQuery ?s1 user uid) = Inr (toDTO q False)"
    using unstar1(1) starred1 by simp
  have c2: "\<not> Starred (toDTO q False)"
    by (simp add: toDTO_def)
  have c3: "\<not> list_ex ?P (query_history_star (snd (unstarQuery ?s1 user uid)))"
    unfolding unstar1(3) by (rule gone)
  have c4: "query_history (snd (unstarQuery ?s1 user uid)) = query_history s"
    using unstar1(2) star(2) by simp
  have c5: "fst (starQuery s user uid) = Inr (toDTO q True)
            \<and> query_history_star (snd (unstarQuery ?s1 user uid)) = query_history_star s
            \<and> fst (unstarQuery s user uid) = Inl ErrStarredQueryNotFound
            \<and> query_history_star (snd (unstarQuery s user uid)) = query_history_star s"
    if no: "\<not> list_ex ?P (query_history_star s)"
  proof -
    have keep: "filter (\<lambda>r. \<not> ?P r) (query_history_star s) = query_history_star s"
      using no by (auto simp: list_ex_iff filter_id_conv)
    have s1: "query_history_star ?s1 = query_history_star s @ [\<lparr>QueryUID = uid, UserID = UserId user\<rparr>]"
      using star(3) no by simp
    have "filter (\<lambda>r. \<not> ?P r) (query_history_star ?s1) = query_history_star s"
      unfolding s1 using keep by (simp add: star_matches_def)
    then show ?thesis
      using star(1) unstar0(1,3) unstar1(3) no keep by simp
  qed
  show ?thesis
    using c1 c2 c3 c4 c5 by blast
qed

theorem star_then_unstar_witness:
  "fst (starQuery service1 user1 ''qb'') = Inr (toDTO query_b True)
   \<and> fst (unstarQuery (snd (starQuery service1 user1 ''qb'')) user1 ''qb'') = Inr (toDTO query_b False)
   \<and> query_history_star (snd (unstarQuery (snd (starQuery service1 user1 ''qb'')) user1 ''qb''))
       = [star_a]
   \<and> fst (unstarQuery service1 user1 ''qb'') = Inl ErrStarredQueryNotFound"
  using star_then_unstar [where s = service1 and user = user1 and uid = "''qb''" and q = query_b]
  by (simp add: example_defs query_matches_def star_matches_def)

section \<open>patchQueryComment\<close>

lemma write_columns_patched:
  "write_columns (q\<lparr>Comment := c\<rparr>) q = q\<lparr>Comment := (if c = [] then Comment q else c)\<rparr>"
  by (simp add: write_columns_def)

lemma update_by_id_distinct:
  assumes "distinct (map ID xs)" and "q \<in> set xs"
  shows "map (\<lambda>r. if ID r = ID q then write_columns (q\<lparr>Comment := c\<rparr>) r else r) xs
           = map (\<lambda>r. if r = q then r\<lparr>Comment := (if c = [] then Comment r else c)\<rparr> else r) xs"
proof (rule map_cong [OF refl])
  fix r assume "r \<in> set xs"
  with assms have "ID r = ID q \<longleftrightarrow> r = q"
    by (auto simp: distinct_map inj_on_def)
  then show "(if ID r = ID q then write_columns (q\<lparr>Comment := c\<rparr>) r else r)
               = (if r = q then r\<lparr>Comment := (if c = [] then Comment r else c)\<rparr> else r)"
    by (auto simp: write_columns_patched)
qed

text \<open>
  What \<open>patchQueryComment\<close> does for every comment, with a store that fails none of the
  three statements, distinct identities in \<open>query_history\<close> and a uid that is not empty.
  When no row matches it fails with \<open>ErrQueryNotFound\<close> and the tables are unchanged.
  When a row is found, the DTO has that row's uid, data source, creator, creation time
  and queries, the comment of the command, and \<open>Starred\<close> as the star table has it for
  the caller and the uid; the star table is unchanged; every other row is unchanged and
  so is every field of the row found but \<open>Comment\<close>. The \<open>Comment\<close> of the row becomes
  the comment of the command when that is not empty. An empty comment is not written:
  the row keeps the comment it had.
\<close>

lemma patchQueryComment_effect:
  assumes "fault_at 0 s = None" and "fault_at 1 s = None" and "fault_at 2 s = None"
    and "distinct (map ID (query_history s))" and "uid \<noteq> []"
  shows "(\<not> list_ex (query_matches (OrgId user) (UserId user) uid) (query_history s) \<longrightarrow>
            fst (patchQueryComment s user uid cmd) = Inl ErrQueryNotFound
            \<and> query_history (snd (patchQueryComment s user uid cmd)) = query_history s
            \<and> query_history_star (snd (patchQueryComment s user uid cmd)) = query_history_star s)
       \<and> (\<forall>q. find (query_matches (OrgId user) (UserId user) uid) (query_history s) = Some q \<longrightarrow>
            fst (patchQueryComment s user uid cmd)
              = Inr \<lparr>dtoUID = UID q, dtoDatasourceUID = DatasourceUID q,
                     dtoCreatedBy = CreatedBy q, dtoCreatedAt = CreatedAt q,
                     dtoComment = cmdComment cmd, dtoQueries = Queries q,
                     Starred = list_ex (star_matches (UserId user) uid) (query_history_star s)\<rparr>
            \<and> query_history (snd (patchQueryComment s user uid cmd))
              = map (\<lambda>r. if r = q
                          then r\<lparr>Comment := (if cmdComment cmd = [] then Comment r
                                              else cmdComment cmd)\<rparr>
                          else r) (query_history s)
            \<and> query_history_star (snd (patchQueryComment s user uid cmd)) = query_history_star s)"
proof (intro conjI impI allI)
  assume "\<not> list_ex (query_matches (OrgId user) (UserId user) uid) (query_history s)"
  then have none: "find (query_matches (OrgId user) (UserId user) uid) (query_history s) = None"
    by (simp add: find_None_list_ex)
  show "fst (patchQueryComment s user uid cmd) = Inl ErrQueryNotFound"
    and "query_history (snd (patchQueryComment s user uid cmd)) = query_history s"
    and "query_history_star (snd (patchQueryComment s user uid cmd)) = query_history_star s"
    using assms(1) none
    by (simp_all add: patchQueryComment_def WithTransactionalDbSession_def GetQuery_ok)
next
  fix q
  assume some: "find (query_matches (OrgId user) (UserId user) uid) (query_history s) = Some q"
  then have q: "q \<in> set (query_history s)" and "query_matches (OrgId user) (UserId user) uid q"
    by (simp_all add: find_Some_list_ex)
  then have cols: "\<not> no_columns (q\<lparr>Comment := cmdComment cmd\<rparr>)"
    using assms(5) by (simp add: no_columns_def query_matches_def)
  note upd = update_by_id_distinct [OF assms(4) q, of "cmdComment cmd"]
  have f2: "fault_at (Suc (Suc 0)) s = None"
    using assms(3) by (simp add: numeral_2_eq_2)
  show "fst (patchQueryComment s user uid cmd)
          = Inr \<lparr>dtoUID = UID q, dtoDatasourceUID = DatasourceUID q,
                 dtoCreatedBy = CreatedBy q, dtoCreatedAt = CreatedAt q,
                 dtoComment = cmdComment cmd, dtoQueries = Queries q,
                 Starred = list_ex (star_matches (UserId user) uid) (query_history_star s)\<rparr>"
    and "query_history (snd (patchQueryComment s user uid cmd))
          = map (\<lambda>r. if r = q
                      then r\<lparr>Comment := (if cmdComment cmd = [] then Comment r
                                          else cmdComment cmd)\<rparr>
                      else r) (query_history s)"
    and "query_history_star (snd (patchQueryComment s user uid cmd)) = query_history_star s"
    using assms(1,2) f2 some cols
    by (simp_all add: patchQueryComment_def WithTransactionalDbSession_def GetQuery_ok
          UpdateQuery_ok ExistStar_ok Let_def upd toDTO_def)
qed

text \<open>
  C8. The claim is not met by the code for an empty comment. The caller's query \<open>qb\<close>
  has the comment \<open>old\<close>; \<open>patchQueryComment\<close> with the empty comment returns a DTO
  whose comment is empty, but the update carries no comment column (the bean's comment
  is its zero value), so the row in \<open>query_history\<close> still has the comment \<open>old\<close>. With
  the comment \<open>new\<close> the same call writes it: the row and the DTO agree.
\<close>

theorem patchQueryComment_empty_comment:
  "find (query_matches (OrgId user1) (UserId user1) ''qb'') (query_history service1)
     = Some \<lparr>ID = 2, UID = ''qb'', OrgID = 1, DatasourceUID = ''ds1'', CreatedBy = 7,
              CreatedAt = 200, Comment = ''old'', Queries = ''B''\<rparr>
   \<and> fst (patchQueryComment service1 user1 ''qb'' \<lparr>cmdComment = []\<rparr>)
       = Inr \<lparr>dtoUID = ''qb'', dtoDatasourceUID = ''ds1'', dtoCreatedBy = 7, dtoCreatedAt = 200,
              dtoComment = [], dtoQueries = ''B'', Starred = False\<rparr>
   \<and> map (\<lambda>r. (UID r, Comment r))
         (query_history (snd (patchQueryComment service1 user1 ''qb'' \<lparr>cmdComment = []\<rparr>)))
       = [(''qa'', []), (''qb'', ''old'')]
   \<and> fst (patchQueryComment service1 user1 ''qb'' \<lparr>cmdComment = ''new''\<rparr>)
       = Inr \<lparr>dtoUID = ''qb'', dtoDatasourceUID = ''ds1'', dtoCreatedBy = 7, dtoCreatedAt = 200,
              dtoComment = ''new'', dtoQueries = ''B'', Starred = False\<rparr>
   \<and> map (\<lambda>r. (UID r, Comment r))
         (query_history (snd (patchQueryComment service1 user1 ''qb'' \<lparr>cmdComment = ''new''\<rparr>)))
       = [(''qa'', []), (''qb'', ''new'')]"
  by (simp add: example_defs patchQueryComment_def WithTransactionalDbSession_def GetQuery_def
        UpdateQuery_def ExistStar_def exec_stmt_def fault_at_def no_columns_def write_columns_def
        query_matches_def star_matches_def toDTO_def Let_def)

section \<open>searchQueries: the statement and its rows\<close>

subsection \<open>The join, the filter and the ordering\<close>

lemma set_join_rows:
  "(q, m) \<in> set (join_rows k qs stars) \<longleftrightarrow>
     q \<in> set qs \<and>
     (case m of
        Some st \<Rightarrow> st \<in> set stars \<and> QueryUID st = UID q
      | None \<Rightarrow> k = LeftJoin \<and> (\<forall>st \<in> set stars. QueryUID st \<noteq> UID q))"
  by (cases k; cases m) (auto simp: join_rows_def Let_def filter_empty_conv)

lemma length_join_rows_inner:
  "length (join_rows InnerJoin qs stars) \<le> length qs * length stars"
proof (induction qs)
  case Nil
  then show ?case by (simp add: join_rows_def)
next
  case (Cons q qs)
  have "length (join_rows InnerJoin (q # qs) stars)
          = length (filter (\<lambda>st. QueryUID st = UID q) stars) + length (join_rows InnerJoin qs stars)"
    by (simp add: join_rows_def Let_def)
  also have "\<dots> \<le> length stars + length qs * length stars"
    by (rule add_mono [OF length_filter_le Cons.IH])
  finally show ?case by simp
qed

lemma set_order_rows: "set (order_rows ob rows) = set rows"
  by (cases ob) (simp_all add: order_rows_def)

lemma length_order_rows: "length (order_rows ob rows) = length rows"
  by (cases ob) (simp_all add: order_rows_def)

lemma set_select_rows:
  "d \<in> set (select_rows like sql org u pattern ds qs stars) \<longleftrightarrow>
     (\<exists>q m. (q, m) \<in> set (join_rows (sel_join sql) qs stars)
            \<and> where_clause like org u pattern ds q
            \<and> d = project (sel_starred sql) (q, m))"
  by (auto simp: select_rows_def set_order_rows image_iff)

lemma length_select_rows:
  "length (select_rows like sql org u pattern ds qs stars)
     \<le> length (join_rows (sel_join sql) qs stars)"
  by (simp add: select_rows_def length_order_rows)

lemma sorted_select_rows_asc:
  "sel_order sql = CreatedAtAsc \<Longrightarrow>
   sorted (map dtoCreatedAt (select_rows like sql org u pattern ds qs stars))"
proof -
  assume asc: "sel_order sql = CreatedAtAsc"
  have "map dtoCreatedAt (map (project e) rows) = map (\<lambda>r. CreatedAt (fst r)) rows" for e rows
    by (simp add: project_def comp_def)
  then show ?thesis
    using asc by (simp add: select_rows_def order_rows_def del: map_map)
qed

lemma sorted_select_rows_desc:
  "sel_order sql = CreatedAtDesc \<Longrightarrow>
   sorted (rev (map dtoCreatedAt (select_rows like sql org u pattern ds qs stars)))"
proof -
  assume desc: "sel_order sql = CreatedAtDesc"
  let ?rows = "sort_key (\<lambda>r. - CreatedAt (fst r))
                 (filter (\<lambda>r. where_clause like org u pattern ds (fst r))
                    (join_rows (sel_join sql) qs stars))"
  have neg: "sorted (map (\<lambda>r. - CreatedAt (fst r)) ?rows)"
    by (rule sorted_sort_key)
  have "sorted (rev (map (\<lambda>r. CreatedAt (fst r)) xs))"
    if "sorted (map (\<lambda>r. - CreatedAt (fst r)) xs)" for xs :: "(QueryHistory \<times> QueryHistoryStar option) list"
    using that by (induction xs) (auto simp: sorted_append)
  from this [OF neg] have "sorted (rev (map (\<lambda>r. CreatedAt (fst r)) ?rows))" .
  moreover have "map dtoCreatedAt (map (project e) rows) = map (\<lambda>r. CreatedAt (fst r)) rows" for e rows
    by (simp add: project_def comp_def)
  ultimately show ?thesis
    using desc by (simp add: select_rows_def order_rows_def del: map_map)
qed

lemma project_toDTO: "project e r = toDTO (fst r) (Starred (project e r))"
  by (simp add: project_def toDTO_def)

lemma select_rows_restricted:
  assumes "d \<in> set (select_rows like sql org u pattern ds qs stars)"
  shows "\<exists>q \<in> set qs. OrgID q = org \<and> CreatedBy q = u \<and> DatasourceUID q \<in> set ds
                      \<and> d = toDTO q (Starred d)"
proof -
  from assms obtain q m where "(q, m) \<in> set (join_rows (sel_join sql) qs stars)"
    and w: "where_clause like org u pattern ds q" and d: "d = project (sel_starred sql) (q, m)"
    by (auto simp: set_select_rows)
  then have "q \<in> set qs"
    by (simp add: set_join_rows)
  moreover have "d = toDTO q (Starred d)"
    using project_toDTO [of "sel_starred sql" "(q, m)"] d by simp
  ultimately show ?thesis
    using w by (auto simp: where_clause_def)
qed

lemma select_rows_left_complete:
  assumes "q \<in> set qs" and "where_clause like org u pattern ds q" and "sel_join sql = LeftJoin"
  shows "\<exists>d \<in> set (select_rows like sql org u pattern ds qs stars). d = toDTO q (Starred d)"
proof -
  obtain m where "(q, m) \<in> set (join_rows LeftJoin qs stars)"
  proof (cases "\<exists>st \<in> set stars. QueryUID st = UID q")
    case True
    then obtain st where "st \<in> set stars" and "QueryUID st = UID q"
      by blast
    with assms(1) have "(q, Some st) \<in> set (join_rows LeftJoin qs stars)"
      by (simp add: set_join_rows)
    then show ?thesis by (rule that)
  next
    case False
    with assms(1) have "(q, None) \<in> set (join_rows LeftJoin qs stars)"
      by (simp add: set_join_rows)
    then show ?thesis by (rule that)
  qed
  with assms(2,3) have "project (sel_starred sql) (q, m) \<in> set (select_rows like sql org u pattern ds qs stars)"
    by (auto simp: set_select_rows)
  moreover have "project (sel_starred sql) (q, m) = toDTO q (Starred (project (sel_starred sql) (q, m)))"
    using project_toDTO [of "sel_starred sql" "(q, m)"] by simp
  ultimately show ?thesis by blast
qed

lemma in_page_in_all: "d \<in> set (take n (drop k xs)) \<Longrightarrow> d \<in> set xs"
  by (blast dest: in_set_takeD in_set_dropD)

lemma sorted_wrt_slice: "sorted_wrt R xs \<Longrightarrow> sorted_wrt R (take n (drop k xs))"
  by simp

lemma two_slices:
  assumes "o1 + n \<le> o2"
  shows "drop o1 (take (o2 + n) xs)
           = take n (drop o1 xs) @ take (o2 - (o1 + n)) (drop (o1 + n) xs) @ take n (drop o2 xs)"
proof -
  have len_eq: "o2 + n - o1 = n + ((o2 - (o1 + n)) + n)"
    using assms by arith
  have o2_eq: "o1 + n + (o2 - (o1 + n)) = o2"
    using assms by arith
  have "drop o1 (take (o2 + n) xs) = take (n + ((o2 - (o1 + n)) + n)) (drop o1 xs)"
    by (simp only: drop_take len_eq)
  also have "\<dots> = take n (drop o1 xs) @ take ((o2 - (o1 + n)) + n) (drop n (drop o1 xs))"
    by (simp only: take_add)
  also have "drop n (drop o1 xs) = drop (o1 + n) xs"
    by (simp add: add.commute)
  also have "take ((o2 - (o1 + n)) + n) (drop (o1 + n) xs)
               = take (o2 - (o1 + n)) (drop (o1 + n) xs)
                 @ take n (drop (o2 - (o1 + n)) (drop (o1 + n) xs))"
    by (simp only: take_add)
  also have "drop (o2 - (o1 + n)) (drop (o1 + n) xs) = drop o2 xs"
    using o2_eq by (simp add: add.commute)
  finally show ?thesis .
qed

subsection \<open>The defaults and the offset\<close>

lemma searchDefaults_fields:
  "DatasourceUIDs (searchDefaults query) = DatasourceUIDs query"
  "SearchString (searchDefaults query) = SearchString query"
  "OnlyStarred (searchDefaults query) = OnlyStarred query"
  "Page (searchDefaults query) = (if sint (Page query) \<le> 0 then 1 else Page query)"
  "Limit (searchDefaults query) = (if sint (Limit query) \<le> 0 then 100 else Limit query)"
  "Sort (searchDefaults query) = (if Sort query = [] then ''time-desc'' else Sort query)"
  by (simp_all add: searchDefaults_def Let_def)

lemma searchSQL_defaults:
  "searchSQL (searchDefaults query) =
     \<lparr>sel_starred = (if OnlyStarred query then BooleanStrTrue else CaseStarIsNull),
      sel_join = (if OnlyStarred query then InnerJoin else LeftJoin),
      sel_order = (if Sort query = ''time-asc'' then CreatedAtAsc else CreatedAtDesc)\<rparr>"
  by (simp add: searchSQL_def searchDefaults_fields)

lemma offset_no_overflow:
  fixes lim page :: "64 word"
  assumes "0 < sint lim" and "0 < sint page" and "sint lim * (sint page - 1) < 2 ^ 63"
  shows "sint (lim * (page - 1)) = sint lim * (sint page - 1)"
proof -
  have "sint page < 2 ^ 63"
    using sint_lt [of page] by simp
  with assms(2) have "sint (page - 1) = sint page - 1"
    by (simp add: sint_word_ariths signed_take_bit_int_eq_self)
  moreover have "0 \<le> sint lim * (sint page - 1)"
    using assms(1,2) by simp
  ultimately show ?thesis
    using assms(3) by (simp add: sint_word_ariths signed_take_bit_int_eq_self)
qed

lemma searchQueries_ok:
  assumes "DatasourceUIDs query \<noteq> []" and "fault_at 0 s = None"
  shows "searchQueries s user query =
     (if sint (Limit (searchDefaults query) * (Page (searchDefaults query) - 1)) < 0
         \<and> NegativeOffsetFails (SQLDialect s)
      then (Inl (StoreFailure ''OFFSET must not be negative''),
            s\<lparr>faults := drop 1 (faults s),
              issued := issued s @
                [FindStmt (searchSQL (searchDefaults query)) (OrgId user) (UserId user)
                   (''%'' @ SearchString query @ ''%'') (DatasourceUIDs query)
                   (sint (Limit (searchDefaults query)))
                   (sint (Limit (searchDefaults query) * (Page (searchDefaults query) - 1)))]\<rparr>)
      else (Inr (take (nat (sint (Limit (searchDefaults query))))
                  (drop (nat (sint (Limit (searchDefaults query) * (Page (searchDefaults query) - 1))))
                     (select_rows (LikeOp (SQLDialect s)) (searchSQL (searchDefaults query))
                        (OrgId user) (UserId user) (''%'' @ SearchString query @ ''%'')
                        (DatasourceUIDs query) (query_history s) (query_history_star s)))),
            s\<lparr>faults := drop 1 (faults s),
              issued := issued s @
                [FindStmt (searchSQL (searchDefaults query)) (OrgId user) (UserId user)
                   (''%'' @ SearchString query @ ''%'') (DatasourceUIDs query)
                   (sint (Limit (searchDefaults query)))
                   (sint (Limit (searchDefaults query) * (Page (searchDefaults query) - 1)))]\<rparr>))"
  using assms
  by (simp add: searchQueries_def WithDbSession_def searchSession_def Let_def Find_ok
        searchDefaults_fields(1,2))

lemma searchQueries_Inr:
  assumes "searchQueries s user query = (Inr rows, s')"
  shows "\<exists>lim off.
           rows = take (nat lim) (drop (nat off)
                    (select_rows (LikeOp (SQLDialect s)) (searchSQL (searchDefaults query))
                       (OrgId user) (UserId user) (''%'' @ SearchString query @ ''%'')
                       (DatasourceUIDs query) (query_history s) (query_history_star s)))
           \<and> issued s' = issued s @
                [FindStmt (searchSQL (searchDefaults query)) (OrgId user) (UserId user)
                   (''%'' @ SearchString query @ ''%'') (DatasourceUIDs query) lim off]"
proof (cases "DatasourceUIDs query = []")
  case True
  with assms show ?thesis by (simp add: searchQueries_def)
next
  case ne: False
  show ?thesis
  proof (cases "fault_at 0 s")
    case None
    show ?thesis
      using assms unfolding searchQueries_ok [OF ne None]
      by (auto split: if_splits)
  next
    case (Some e)
    with ne assms show ?thesis
      by (simp add: searchQueries_def WithDbSession_def searchSession_def Let_def Find_fault)
  qed
qed

lemma searchQueries_page:
  fixes L P :: int
  assumes "DatasourceUIDs query \<noteq> []" and "fault_at 0 s = None"
    and L: "L = (if sint (Limit query) \<le> 0 then 100 else sint (Limit query))"
    and P: "P = (if sint (Page query) \<le> 0 then 1 else sint (Page query))"
    and range: "L * (P - 1) < 2 ^ 63"
  shows "fst (searchQueries s user query) =
           Inr (take (nat L) (drop (nat (L * (P - 1)))
                  (select_rows (LikeOp (SQLDialect s)) (searchSQL (searchDefaults query))
                     (OrgId user) (UserId user) (''%'' @ SearchString query @ ''%'')
                     (DatasourceUIDs query) (query_history s) (query_history_star s))))"
proof -
  let ?lim = "Limit (searchDefaults query)" and ?page = "Page (searchDefaults query)"
  have lim: "sint ?lim = L" and page: "sint ?page = P"
    using L P by (simp_all add: searchDefaults_fields)
  have pos: "0 < L" "0 < P"
    using L P by (simp_all split: if_splits)
  have off: "sint (?lim * (?page - 1)) = L * (P - 1)"
    using offset_no_overflow [of ?lim ?page] pos range unfolding lim page by simp
  have "0 \<le> L * (P - 1)"
    using pos by simp
  then show ?thesis
    unfolding searchQueries_ok [OF assms(1,2)] off lim by simp
qed

lemma starred_select_rows:
  assumes "d \<in> set (select_rows like (searchSQL (searchDefaults query)) org u pattern ds qs stars)"
  shows "Starred d \<longleftrightarrow> (\<exists>st \<in> set stars. QueryUID st = dtoUID d)"
    and "OnlyStarred query \<Longrightarrow> Starred d"
proof -
  from assms obtain q m where
    j: "(q, m) \<in> set (join_rows (if OnlyStarred query then InnerJoin else LeftJoin) qs stars)"
    and d: "d = project (if OnlyStarred query then BooleanStrTrue else CaseStarIsNull) (q, m)"
    by (auto simp: set_select_rows searchSQL_defaults)
  show "Starred d \<longleftrightarrow> (\<exists>st \<in> set stars. QueryUID st = dtoUID d)"
    using j d by (cases m) (auto simp: set_join_rows project_def split: if_splits)
  show "OnlyStarred query \<Longrightarrow> Starred d"
    using d by (simp add: project_def)
qed

subsection \<open>The starred column\<close>

text \<open>
  C5. Whenever \<open>searchQueries\<close> returns rows, the one statement it issued joins
  \<open>query_history_star\<close> with an inner join and selects the true literal as \<open>starred\<close>
  when \<open>OnlyStarred\<close> is set, and with a left join and the \<open>CASE\<close> expression when it
  is not. In the first case every DTO returned has \<open>Starred\<close> true; in the second a DTO
  has \<open>Starred\<close> true exactly when a star row with its uid as \<open>query_uid\<close> exists.
\<close>

theorem searchQueries_starred_column:
  assumes "searchQueries s user query = (Inr rows, s')"
  shows "(\<exists>sql org u pattern ds lim off.
            issued s' = issued s @ [FindStmt sql org u pattern ds lim off]
            \<and> sel_join sql = (if OnlyStarred query then InnerJoin else LeftJoin)
            \<and> sel_starred sql = (if OnlyStarred query then BooleanStrTrue else CaseStarIsNull))
       \<and> (OnlyStarred query \<longrightarrow> (\<forall>d \<in> set rows. Starred d))
       \<and> (\<not> OnlyStarred query \<longrightarrow>
            (\<forall>d \<in> set rows.
               Starred d \<longleftrightarrow> (\<exists>st \<in> set (query_history_star s). QueryUID st = dtoUID d)))"
proof -
  from searchQueries_Inr [OF assms] obtain lim off where
    rows: "rows = take (nat lim) (drop (nat off)
                    (select_rows (LikeOp (SQLDialect s)) (searchSQL (searchDefaults query))
                       (OrgId user) (UserId user) (''%'' @ SearchString query @ ''%'')
                       (DatasourceUIDs query) (query_history s) (query_history_star s)))"
    and stmt: "issued s' = issued s @
                [FindStmt (searchSQL (searchDefaults query)) (OrgId user) (UserId user)
                   (''%'' @ SearchString query @ ''%'') (DatasourceUIDs query) lim off]"
    by blast
  have issued_stmt: "\<exists>sql org u pattern ds lim off.
            issued s' = issued s @ [FindStmt sql org u pattern ds lim off]
            \<and> sel_join sql = (if OnlyStarred query then InnerJoin else LeftJoin)
            \<and> sel_starred sql = (if OnlyStarred query then BooleanStrTrue else CaseStarIsNull)"
    using stmt by (auto simp: searchSQL_defaults)
  have selected: "d \<in> set (select_rows (LikeOp (SQLDialect s)) (searchSQL (searchDefaults query))
                       (OrgId user) (UserId user) (''%'' @ SearchString query @ ''%'')
                       (DatasourceUIDs query) (query_history s) (query_history_star s))"
    if "d \<in> set rows" for d
    using that unfolding rows by (rule in_page_in_all)
  have forced: "Starred d" if "OnlyStarred query" and "d \<in> set rows" for d
    using starred_select_rows(2) [OF selected [OF that(2)] that(1)] .
  have computed: "Starred d \<longleftrightarrow> (\<exists>st \<in> set (query_history_star s). QueryUID st = dtoUID d)"
    if "d \<in> set rows" for d
    using starred_select_rows(1) [OF selected [OF that]] .
  show ?thesis
    using issued_stmt forced computed by blast
qed

theorem searchQueries_starred_column_witness:
  "fst (searchQueries service1 user1 (search1\<lparr>OnlyStarred := True\<rparr>)) = Inr [toDTO query_a True]
   \<and> fst (searchQueries service1 user1 search1) = Inr [toDTO query_b False, toDTO query_a True]
   \<and> issued (snd (searchQueries service1 user1 (search1\<lparr>OnlyStarred := True\<rparr>)))
       = [FindStmt \<lparr>sel_starred = BooleanStrTrue, sel_join = InnerJoin, sel_order = CreatedAtDesc\<rparr>
            1 7 ''%%'' [''ds1''] 100 0]"
  using searchQueries_starred_column
          [where s = service1 and user = user1
             and query = "search1\<lparr>OnlyStarred := True\<rparr>" and rows = "[toDTO query_a True]"
             and s' = "snd (searchQueries service1 user1 (search1\<lparr>OnlyStarred := True\<rparr>))"]
        searchQueries_starred_column
          [where s = service1 and user = user1
             and query = search1 and rows = "[toDTO query_b False, toDTO query_a True]"
             and s' = "snd (searchQueries service1 user1 search1)"]
  by (simp add: example_defs search_defs)

text \<open>
  C10. The join is on \<open>query_uid\<close> alone. For every row \<open>searchQueries\<close> returns, in
  either mode, \<open>Starred\<close> is true exactly when some star row has that uid as its
  \<open>query_uid\<close>, whoever the star's user is. With \<open>OnlyStarred\<close>, on the first page and
  with a limit that the whole join fits in, every query row that passes the \<open>WHERE\<close>
  clause and is referenced by a star row of any user is among the rows returned.
\<close>

theorem searchQueries_join_on_query_uid:
  assumes "searchQueries s user query = (Inr rows, s')"
  shows "(\<forall>d \<in> set rows.
            Starred d \<longleftrightarrow> (\<exists>st \<in> set (query_history_star s). QueryUID st = dtoUID d))
       \<and> (OnlyStarred query \<and> sint (Page query) \<le> 1
            \<and> int (length (query_history s) * length (query_history_star s))
                 \<le> (if sint (Limit query) \<le> 0 then 100 else sint (Limit query)) \<longrightarrow>
            (\<forall>q \<in> set (query_history s). \<forall>st \<in> set (query_history_star s).
               QueryUID st = UID q
               \<and> where_clause (LikeOp (SQLDialect s)) (OrgId user) (UserId user)
                     (''%'' @ SearchString query @ ''%'') (DatasourceUIDs query) q
               \<longrightarrow> toDTO q True \<in> set rows))"
proof -
  let ?matching = "select_rows (LikeOp (SQLDialect s)) (searchSQL (searchDefaults query))
                     (OrgId user) (UserId user) (''%'' @ SearchString query @ ''%'')
                     (DatasourceUIDs query) (query_history s) (query_history_star s)"
  from searchQueries_Inr [OF assms] obtain lim off where
    rows: "rows = take (nat lim) (drop (nat off) ?matching)"
    by blast
  have part1: "Starred d \<longleftrightarrow> (\<exists>st \<in> set (query_history_star s). QueryUID st = dtoUID d)"
    if "d \<in> set rows" for d
  proof -
    from that have "d \<in> set ?matching"
      unfolding rows by (rule in_page_in_all)
    then show ?thesis by (rule starred_select_rows(1))
  qed
  have part2: "toDTO q True \<in> set rows"
    if only: "OnlyStarred query" and first: "sint (Page query) \<le> 1"
      and fits: "int (length (query_history s) * length (query_history_star s))
                   \<le> (if sint (Limit query) \<le> 0 then 100 else sint (Limit query))"
      and q: "q \<in> set (query_history s)" and st: "st \<in> set (query_history_star s)"
      and on_uid: "QueryUID st = UID q"
      and w: "where_clause (LikeOp (SQLDialect s)) (OrgId user) (UserId user)
                (''%'' @ SearchString query @ ''%'') (DatasourceUIDs query) q"
    for q st
  proof -
    define L where "L = (if sint (Limit query) \<le> 0 then 100 else sint (Limit query))"
    define P where "P = (if sint (Page query) \<le> 0 then 1 else sint (Page query))"
    have P1: "P = 1"
      using first unfolding P_def by simp
    have ds: "DatasourceUIDs query \<noteq> []"
      using assms by (auto simp: searchQueries_def)
    have ok: "fault_at 0 s = None"
    proof (cases "fault_at 0 s")
      case (Some e)
      with ds assms show ?thesis
        by (simp add: searchQueries_def WithDbSession_def searchSession_def Let_def Find_fault)
    qed simp
    have "fst (searchQueries s user query) = Inr (take (nat L) (drop (nat (L * (P - 1))) ?matching))"
      by (rule searchQueries_page [OF ds ok L_def P_def]) (simp add: P1)
    then have rows': "rows = take (nat L) ?matching"
      using assms by (simp add: P1)
    have inner: "sel_join (searchSQL (searchDefaults query)) = InnerJoin"
      using only by (simp add: searchSQL_defaults)
    have "length ?matching
            \<le> length (join_rows (sel_join (searchSQL (searchDefaults query)))
                        (query_history s) (query_history_star s))"
      by (rule length_select_rows)
    also have "\<dots> \<le> length (query_history s) * length (query_history_star s)"
      unfolding inner by (rule length_join_rows_inner)
    finally have "length ?matching \<le> length (query_history s) * length (query_history_star s)" .
    then have "length ?matching \<le> nat L"
      using fits unfolding L_def by linarith
    then have all: "rows = ?matching"
      unfolding rows' by simp
    have "(q, Some st) \<in> set (join_rows InnerJoin (query_history s) (query_history_star s))"
      using q st on_uid by (simp add: set_join_rows)
    moreover have "toDTO q True = project BooleanStrTrue (q, Some st)"
      by (simp add: project_def toDTO_def)
    ultimately show ?thesis
      unfolding all using w only by (auto simp: set_select_rows searchSQL_defaults)
  qed
  show ?thesis
    using part1 part2 by blast
qed

theorem searchQueries_join_on_query_uid_witness:
  "query_history_star service_other_star = [\<lparr>QueryUID = ''qa'', UserID = 9\<rparr>]
   \<and> UserId user1 = 7
   \<and> fst (searchQueries service_other_star user1 (search1\<lparr>OnlyStarred := True\<rparr>))
       = Inr [toDTO query_a True]
   \<and> fst (searchQueries service_other_star user1 search1)
       = Inr [toDTO query_b False, toDTO query_a True]"
  using searchQueries_join_on_query_uid
          [where s = service_other_star and user = user1
             and query = "search1\<lparr>OnlyStarred := True\<rparr>" and rows = "[toDTO query_a True]"
             and s' = "snd (searchQueries service_other_star user1 (search1\<lparr>OnlyStarred := True\<rparr>))"]
  by (simp add: service_other_star_def example_defs search_defs)

subsection \<open>Ordering and pages\<close>

text \<open>
  C6 as the specification states it fails where \<open>Limit * (Page - 1)\<close> leaves the
  range of the machine integer. With \<open>Limit\<close> \<open>2\<^sup>3\<^sup>2\<close> and \<open>Page\<close> \<open>2\<^sup>3\<^sup>2 + 1\<close> the product
  \<open>2\<^sup>6\<^sup>4\<close> wraps to 0: the page that should start beyond every row returns the rows of
  page 1.
\<close>

theorem searchQueries_overflow_counterexample:
  "fst (searchQueries service1 user1 (search1\<lparr>Page := 1, Limit := 4294967296\<rparr>))
     = Inr [toDTO query_b False, toDTO query_a True]
   \<and> fst (searchQueries service1 user1 (search1\<lparr>Page := 4294967297, Limit := 4294967296\<rparr>))
     = Inr [toDTO query_b False, toDTO query_a True]
   \<and> sint (4294967296 :: 64 word) * (sint (4294967297 :: 64 word) - 1) = 2 ^ 64
   \<and> drop (2 ^ 64) [toDTO query_b False, toDTO query_a True] = []"
  by (simp add: example_defs search_defs)

text \<open>
  C6, amended. Let \<open>L\<close> be the limit in force (100 when \<open>Limit\<close> is not positive) and
  \<open>P\<close> the page in force (1 when \<open>Page\<close> is not positive), and let \<open>L * (P - 1)\<close> fit
  in a signed 64-bit integer. With at least one data-source uid and a store that does not
  fail the statement, \<open>searchQueries\<close> returns, never an error, the at most \<open>L\<close> rows
  that start at offset \<open>L * (P - 1)\<close> of the sequence \<open>matching\<close>: the joined rows of
  the caller's organisation and user id and of the given data sources, ordered by
  \<open>CreatedAt\<close> ascending when \<open>Sort\<close> is \<open>time-asc\<close> and descending otherwise.
  Without \<open>OnlyStarred\<close> every query row that passes the \<open>WHERE\<close> clause has a row in
  \<open>matching\<close>. \<open>matching\<close> does not depend on \<open>Page\<close>, so a later page with the
  same limit (its offset in range too) is a slice of the same sequence that begins at or
  after the end of this one: the two pages are disjoint segments of \<open>matching\<close>.
\<close>

theorem searchQueries_pages:
  fixes L P :: int
  assumes "DatasourceUIDs query \<noteq> []" and "fault_at 0 s = None"
    and L: "L = (if sint (Limit query) \<le> 0 then 100 else sint (Limit query))"
    and P: "P = (if sint (Page query) \<le> 0 then 1 else sint (Page query))"
    and range: "L * (P - 1) < 2 ^ 63"
    and matching: "matching =
          select_rows (LikeOp (SQLDialect s))
            \<lparr>sel_starred = (if OnlyStarred query then BooleanStrTrue else CaseStarIsNull),
             sel_join = (if OnlyStarred query then InnerJoin else LeftJoin),
             sel_order = (if Sort query = ''time-asc'' then CreatedAtAsc else CreatedAtDesc)\<rparr>
            (OrgId user) (UserId user) (''%'' @ SearchString query @ ''%'')
            (DatasourceUIDs query) (query_history s) (query_history_star s)"
    and rows: "rows = take (nat L) (drop (nat (L * (P - 1))) matching)"
  shows "fst (searchQueries s user query) = Inr rows
       \<and> length rows \<le> nat L
       \<and> (Sort query = ''time-asc'' \<longrightarrow>
            sorted_wrt (\<le>) (map dtoCreatedAt matching) \<and> sorted_wrt (\<le>) (map dtoCreatedAt rows))
       \<and> (Sort query \<noteq> ''time-asc'' \<longrightarrow>
            sorted_wrt (\<ge>) (map dtoCreatedAt matching) \<and> sorted_wrt (\<ge>) (map dtoCreatedAt rows))
       \<and> (\<forall>d \<in> set rows. \<exists>q \<in> set (query_history s).
              OrgID q = OrgId user \<and> CreatedBy q = UserId user
              \<and> DatasourceUID q \<in> set (DatasourceUIDs query) \<and> d = toDTO q (Starred d))
       \<and> (\<not> OnlyStarred query \<longrightarrow>
            (\<forall>q \<in> set (query_history s).
               where_clause (LikeOp (SQLDialect s)) (OrgId user) (UserId user)
                  (''%'' @ SearchString query @ ''%'') (DatasourceUIDs query) q
               \<longrightarrow> (\<exists>d \<in> set matching. d = toDTO q (Starred d))))
       \<and> (\<forall>page'. P < sint page' \<and> L * (sint page' - 1) < 2 ^ 63 \<longrightarrow>
              fst (searchQueries s user (query\<lparr>Page := page'\<rparr>))
                = Inr (take (nat L) (drop (nat (L * (sint page' - 1))) matching))
              \<and> (\<exists>between.
                    drop (nat (L * (P - 1))) (take (nat (L * sint page')) matching)
                      = rows @ between @ take (nat L) (drop (nat (L * (sint page' - 1))) matching)))"
proof -
  let ?sel = "\<lambda>q. select_rows (LikeOp (SQLDialect s)) (searchSQL (searchDefaults q))
                     (OrgId user) (UserId user) (''%'' @ SearchString q @ ''%'')
                     (DatasourceUIDs q) (query_history s) (query_history_star s)"
  have m: "matching = ?sel query"
    unfolding matching searchSQL_defaults ..
  have pos: "0 < L" "0 < P"
    using L P by (simp_all split: if_splits)
  have c1: "fst (searchQueries s user query) = Inr rows"
    unfolding rows m by (rule searchQueries_page [OF assms(1,2) L P range])
  have c2: "length rows \<le> nat L"
    unfolding rows by simp
  have asc: "sorted_wrt (\<le>) (map dtoCreatedAt matching)" if "Sort query = ''time-asc''"
    using sorted_select_rows_asc [of "searchSQL (searchDefaults query)"] that
    unfolding m by (simp add: searchSQL_defaults)
  have desc: "sorted_wrt (\<ge>) (map dtoCreatedAt matching)" if "Sort query \<noteq> ''time-asc''"
    using sorted_select_rows_desc [of "searchSQL (searchDefaults query)"] that
    unfolding m by (simp add: searchSQL_defaults sorted_wrt_rev)
  have slice: "map dtoCreatedAt rows = take (nat L) (drop (nat (L * (P - 1))) (map dtoCreatedAt matching))"
    unfolding rows by (simp add: take_map drop_map)
  have c3: "Sort query = ''time-asc'' \<longrightarrow>
            sorted_wrt (\<le>) (map dtoCreatedAt matching) \<and> sorted_wrt (\<le>) (map dtoCreatedAt rows)"
    unfolding slice using asc sorted_wrt_slice by blast
  have c4: "Sort query \<noteq> ''time-asc'' \<longrightarrow>
            sorted_wrt (\<ge>) (map dtoCreatedAt matching) \<and> sorted_wrt (\<ge>) (map dtoCreatedAt rows)"
    unfolding slice using desc sorted_wrt_slice by blast
  have c5: "\<exists>q \<in> set (query_history s).
              OrgID q = OrgId user \<and> CreatedBy q = UserId user
              \<and> DatasourceUID q \<in> set (DatasourceUIDs query) \<and> d = toDTO q (Starred d)"
    if "d \<in> set rows" for d
  proof -
    from that have "d \<in> set (?sel query)"
      unfolding rows m by (rule in_page_in_all)
    then show ?thesis by (rule select_rows_restricted)
  qed
  have c6: "fst (searchQueries s user (query\<lparr>Page := page'\<rparr>))
                = Inr (take (nat L) (drop (nat (L * (sint page' - 1))) matching))
              \<and> (\<exists>between.
                    drop (nat (L * (P - 1))) (take (nat (L * sint page')) matching)
                      = rows @ between @ take (nat L) (drop (nat (L * (sint page' - 1))) matching))"
    if later: "P < sint page'" and range': "L * (sint page' - 1) < 2 ^ 63" for page'
  proof
    let ?q' = "query\<lparr>Page := page'\<rparr>"
    have m': "?sel ?q' = matching"
      unfolding m by (simp add: searchSQL_defaults)
    have L': "L = (if sint (Limit ?q') \<le> 0 then 100 else sint (Limit ?q'))"
      using L by simp
    have P': "sint page' = (if sint (Page ?q') \<le> 0 then 1 else sint (Page ?q'))"
      using later pos by simp
    have ds': "DatasourceUIDs ?q' \<noteq> []"
      using assms(1) by simp
    show "fst (searchQueries s user ?q') = Inr (take (nat L) (drop (nat (L * (sint page' - 1))) matching))"
      using searchQueries_page [OF ds' assms(2) L' P' range', of user] unfolding m' .
    have o1: "nat (L * (P - 1)) + nat L \<le> nat (L * (sint page' - 1))"
    proof -
      have "L * (P - 1) + L = L * P"
        by (simp add: algebra_simps)
      moreover have "L * P \<le> L * (sint page' - 1)"
        using later pos by (intro mult_left_mono) simp_all
      moreover have "0 \<le> L * (P - 1)"
        using pos by simp
      ultimately show ?thesis
        using pos by linarith
    qed
    have o2: "nat (L * sint page') = nat (L * (sint page' - 1)) + nat L"
    proof -
      have "L * sint page' = L * (sint page' - 1) + L"
        by (simp add: algebra_simps)
      moreover have "0 \<le> L * (sint page' - 1)"
        using later pos by simp
      ultimately show ?thesis
        using pos by (simp add: nat_add_distrib)
    qed
    show "\<exists>between.
            drop (nat (L * (P - 1))) (take (nat (L * sint page')) matching)
              = rows @ between @ take (nat L) (drop (nat (L * (sint page' - 1))) matching)"
      unfolding rows o2 using two_slices [OF o1, of matching] by blast
  qed
  have c7: "\<exists>d \<in> set matching. d = toDTO q (Starred d)"
    if "\<not> OnlyStarred query" and "q \<in> set (query_history s)"
      and "where_clause (LikeOp (SQLDialect s)) (OrgId user) (UserId user)
             (''%'' @ SearchString query @ ''%'') (DatasourceUIDs query) q"
    for q
    unfolding m
    by (rule select_rows_left_complete [OF that(2,3)]) (simp add: searchSQL_defaults that(1))
  show ?thesis
    using c1 c2 c3 c4 c5 c6 c7 by blast
qed

theorem searchQueries_pages_witness:
  "fst (searchQueries service1 user1 (search1\<lparr>Limit := 1\<rparr>)) = Inr [toDTO query_b False]
   \<and> fst (searchQueries service1 user1 (search1\<lparr>Limit := 1, Page := 2\<rparr>)) = Inr [toDTO query_a True]
   \<and> fst (searchQueries service1 user1 (search1\<lparr>Sort := ''time-asc''\<rparr>))
       = Inr [toDTO query_a True, toDTO query_b False]
   \<and> fst (searchQueries service1 user1 (search1\<lparr>DatasourceUIDs := [''ds2'']\<rparr>)) = Inr []"
  using searchQueries_pages
          [where s = service1 and user = user1 and query = "search1\<lparr>Limit := 1\<rparr>"
             and L = 1 and P = 1 and matching = "[toDTO query_b False, toDTO query_a True]"
             and rows = "[toDTO query_b False]"]
  by (simp add: example_defs search_defs)

end
